theory Spec2Isabelle
  imports Complex_Main "HOL-Library.Log_Nat"
begin

section \<open>Python values\<close>

text \<open>
  A text (a Python \<open>str\<close>) is the \<^typ>\<open>string\<close> of the bytes of its UTF-8 encoding; an
  ASCII text is the list of its characters. On an ASCII text \<open>str.lower\<close> maps the letters
  A to Z and leaves every other character alone, and \<open>str.split\<close> and \<open>str.strip\<close> cut at
  the ASCII characters for which \<open>str.isspace\<close> holds (tab, line feed, vertical tab, form
  feed, carriage return, the four separators 0x1C to 0x1F, and space). On any other text
  the three methods follow the Unicode tables of the interpreter (case mappings that
  depend on the neighbouring characters, whitespace such as U+00A0 and U+2028): there
  they are taken as given, and nothing is assumed about them.
\<close>

record unicode_tables =
  unicode_lower :: "string \<Rightarrow> string"
  unicode_split :: "string \<Rightarrow> string list"
  unicode_strip :: "string \<Rightarrow> string"

definition is_ascii :: "string \<Rightarrow> bool" where
  "is_ascii s = list_all (\<lambda>c. \<not> digit7 c) s"

definition is_space :: "char \<Rightarrow> bool" where
  "is_space c = (c \<in> set [CHR 0x09, CHR 0x0A, CHR 0x0B, CHR 0x0C, CHR 0x0D,
                           CHR 0x1C, CHR 0x1D, CHR 0x1E, CHR 0x1F, CHR '' ''])"

definition lower_char :: "char \<Rightarrow> char" where
  "lower_char c =
     (case map_of (zip ''ABCDEFGHIJKLMNOPQRSTUVWXYZ'' ''abcdefghijklmnopqrstuvwxyz'') c of
        Some d \<Rightarrow> d
      | None \<Rightarrow> c)"

text \<open>\<open>s.lower()\<close>.\<close>

definition py_lower :: "unicode_tables \<Rightarrow> string \<Rightarrow> string" where
  "py_lower u s = (if is_ascii s then map lower_char s else unicode_lower u s)"

text \<open>\<open>s.split()\<close>: on an ASCII text, the maximal runs of non-whitespace characters, in
  order. The first argument of \<open>split_from\<close> is the token read so far.\<close>

fun split_from :: "string \<Rightarrow> string \<Rightarrow> string list" where
  "split_from w [] = (if w = [] then [] else [w])"
| "split_from w (c # cs) =
     (if is_space c then (if w = [] then split_from [] cs else w # split_from [] cs)
      else split_from (w @ [c]) cs)"

definition py_split :: "unicode_tables \<Rightarrow> string \<Rightarrow> string list" where
  "py_split u s = (if is_ascii s then split_from [] s else unicode_split u s)"

text \<open>\<open>s.replace(pat, "")\<close> for a non-empty \<open>pat\<close>: every occurrence is dropped, scanning
  from the left, and the scan resumes behind each one. The two patterns of the code are
  ASCII, and an ASCII byte is never part of the encoding of another character, so the
  bytes can be scanned.\<close>

function remove_all :: "string \<Rightarrow> string \<Rightarrow> string" where
  "remove_all pat [] = []"
| "remove_all pat (c # cs) =
     (if pat \<noteq> [] \<and> take (length pat) (c # cs) = pat
      then remove_all pat (drop (length pat) (c # cs))
      else c # remove_all pat cs)"
  by pat_completeness auto
termination
  by (relation "measure (\<lambda>(pat, s). length s)") auto

text \<open>\<open>s.strip()\<close>.\<close>

definition py_strip :: "unicode_tables \<Rightarrow> string \<Rightarrow> string" where
  "py_strip u s =
     (if is_ascii s then rev (dropWhile is_space (rev (dropWhile is_space s)))
      else unicode_strip u s)"

text \<open>\<open>str(n)\<close> for an integer.\<close>

fun digits :: "nat \<Rightarrow> string" where
  "digits n =
     (if n < 10 then [''0123456789'' ! n]
      else digits (n div 10) @ [''0123456789'' ! (n mod 10)])"

definition py_str :: "int \<Rightarrow> string" where
  "py_str i = (if i < 0 then CHR ''-'' # digits (nat (- i)) else digits (nat i))"

text \<open>A text given by the bytes of its encoding, and the characters of a text: each is a
  leading byte with the continuation bytes (\<open>10xxxxxx\<close>) behind it.\<close>

definition utf8 :: "nat list \<Rightarrow> string" where
  "utf8 bs = map char_of bs"

definition is_continuation :: "char \<Rightarrow> bool" where
  "is_continuation c = (digit7 c \<and> \<not> digit6 c)"

function code_points :: "string \<Rightarrow> string list" where
  "code_points [] = []"
| "code_points (c # cs) =
     (c # takeWhile is_continuation cs) # code_points (dropWhile is_continuation cs)"
  by pat_completeness auto
termination
  by (relation "measure length") (auto simp: length_dropWhile_le less_Suc_eq_le)

text \<open>
  The exceptions the pipeline meets, all subclasses of \<open>Exception\<close>. \<open>OtherError\<close> is
  whatever a collaborator (the oracle, the embedding backend, a parser) raises besides.
\<close>

datatype py_error = AttributeError | TypeError | JSONDecodeError | OtherError string

text \<open>
  What \<open>json.loads\<close> returns. An object is the list of its items, keys distinct. A number
  is a rational (NaN and the infinities, which \<open>json.loads\<close> also accepts, are left out).
\<close>

datatype json =
    JNull
  | JBool bool
  | JNum rat
  | JStr string
  | JArr "json list"
  | JObj "(string \<times> json) list"

text \<open>\<open>d.get(k, dflt)\<close>: only a dict has the method.\<close>

definition py_get :: "json \<Rightarrow> string \<Rightarrow> json \<Rightarrow> py_error + json" where
  "py_get d k dflt =
     (case d of
        JObj kvs \<Rightarrow> Inr (case map_of kvs k of Some v \<Rightarrow> v | None \<Rightarrow> dflt)
      | _ \<Rightarrow> Inl AttributeError)"

text \<open>\<open>v.lower()\<close>: only a string has the method.\<close>

definition lower_of :: "unicode_tables \<Rightarrow> json \<Rightarrow> py_error + string" where
  "lower_of u v = (case v of JStr s \<Rightarrow> Inr (py_lower u s) | _ \<Rightarrow> Inl AttributeError)"

text \<open>Truth value of a Python object, as \<open>or\<close> tests it.\<close>

fun truthy :: "json \<Rightarrow> bool" where
  "truthy JNull = False"
| "truthy (JBool b) = b"
| "truthy (JNum r) = (r \<noteq> 0)"
| "truthy (JStr s) = (s \<noteq> [])"
| "truthy (JArr xs) = (xs \<noteq> [])"
| "truthy (JObj kvs) = (kvs \<noteq> [])"

text \<open>\<open>for item in v\<close>: a list gives its elements, a dict its keys, a string its
  characters; nothing else is iterable.\<close>

definition py_iter :: "json \<Rightarrow> py_error + json list" where
  "py_iter v =
     (case v of
        JArr xs \<Rightarrow> Inr xs
      | JObj kvs \<Rightarrow> Inr (map (\<lambda>kv. JStr (fst kv)) kvs)
      | JStr s \<Rightarrow> Inr (map JStr (code_points s))
      | _ \<Rightarrow> Inl TypeError)"

text \<open>Continue with the value, or stop with the exception and the oracle state reached.\<close>

definition or_raise ::
  "py_error + 'a \<Rightarrow> 's \<Rightarrow> ('a \<Rightarrow> (py_error + 'b) \<times> 's) \<Rightarrow> (py_error + 'b) \<times> 's" where
  "or_raise r s k = (case r of Inl e \<Rightarrow> (Inl e, s) | Inr v \<Rightarrow> k v)"

section \<open>Python floats\<close>

text \<open>
  A float is the rational it denotes. \<open>fl\<close> rounds a rational to the nearest number with
  a 53-bit significand, ties to the even significand: the result of one IEEE 754 binary64
  operation on exact operands, with the exponent range left unbounded (no overflow, no
  subnormal numbers). Python's \<open>a / b\<close> on two integers and \<open>x * 100\<close> on a float are
  correctly rounded, so they are \<open>fl (a / b)\<close> and \<open>fl (x * 100)\<close>.
\<close>

definition pow2 :: "int \<Rightarrow> rat" where
  "pow2 e = (if 0 \<le> e then 2 ^ nat e else 1 / 2 ^ nat (- e))"

text \<open>The binade of a non-zero \<open>x\<close>: the \<open>e\<close> with \<open>2^e \<le> |x| < 2^(e+1)\<close>.\<close>

definition binade :: "rat \<Rightarrow> int" where
  "binade x =
     (let (p, q) = quotient_of \<bar>x\<bar>;
          d = bitlen p - bitlen q
      in if pow2 d \<le> \<bar>x\<bar> then d else d - 1)"

definition round_half_even :: "rat \<Rightarrow> int" where
  "round_half_even q =
     (let f = \<lfloor>q\<rfloor>; r = q - of_int f
      in if r < 1 / 2 then f
         else if 1 / 2 < r then f + 1
         else if even f then f
         else f + 1)"

definition fl :: "rat \<Rightarrow> rat" where
  "fl x =
     (if x = 0 then 0
      else let u = pow2 (binade x - 52) in of_int (round_half_even (x / u)) * u)"

text \<open>\<open>int(x)\<close> on a float: truncation towards zero.\<close>

definition py_int :: "rat \<Rightarrow> int" where
  "py_int x = (if 0 \<le> x then \<lfloor>x\<rfloor> else \<lceil>x\<rceil>)"

section \<open>llm\_service.py: the lexical similarity fallback\<close>

definition stop_words :: "string set" where
  "stop_words = set [''the'', ''a'', ''an'', ''and'', ''or'', ''but'', ''in'', ''on'', ''at'',
                     ''to'', ''for'', ''of'', ''with'']"

text \<open>\<open>EmbeddingService._keyword_similarity\<close>. The quotient of the two lengths is a
  Python float; it is kept as the exact rational here. Both lengths are small integers
  and the division is correctly rounded, so the float is 0, 1 or strictly between them
  exactly when the rational is.\<close>

definition keyword_similarity :: "unicode_tables \<Rightarrow> string \<Rightarrow> string \<Rightarrow> rat" where
  "keyword_similarity u text1 text2 =
     (let words1 = set (py_split u (py_lower u text1)) - stop_words;
          words2 = set (py_split u (py_lower u text2)) - stop_words
      in if words1 = {} \<or> words2 = {} then 0
         else of_nat (card (words1 \<inter> words2)) / of_nat (card (words1 \<union> words2)))"

text \<open>
  \<open>EmbeddingService\<close>. The sentence-transformer model is outside the repository:
  \<open>encode_cosine\<close> stands for \<open>model.encode\<close> followed by \<open>_cosine_similarity\<close>, which
  returns a float (taken as a rational; NaN is left out) or raises. The score only enters
  the scan prompt.
\<close>

record embedding_service =
  use_fallback :: bool
  encode_cosine :: "string \<Rightarrow> string \<Rightarrow> py_error + rat"

definition get_similarity ::
  "embedding_service \<Rightarrow> unicode_tables \<Rightarrow> string \<Rightarrow> string \<Rightarrow> rat" where
  "get_similarity es u text1 text2 =
     (if use_fallback es then keyword_similarity u text1 text2
      else case encode_cosine es text1 text2 of
             Inr v \<Rightarrow> v
           | Inl e \<Rightarrow> keyword_similarity u text1 text2)"

section \<open>models.py, as simulation.py uses it\<close>

text \<open>
  The pydantic models are not among the sources; the records hold the fields that
  simulation.py, prompts.py and main.py read and write. A field that receives a value of
  the oracle's reply unchecked (a comment, a title) has the type \<^typ>\<open>json\<close>: the
  record holds what is handed to the constructor. Four fields are renamed, since \<open>id\<close>,
  \<open>type\<close> and \<open>metrics\<close> are taken: \<open>Persona.id\<close> is \<open>persona_id\<close>, \<open>Insight.type\<close> is
  \<open>insight_type\<close>, \<open>SimulationResult.id\<close> and \<open>.metrics\<close> are \<open>result_id\<close> and
  \<open>result_metrics\<close>. Of the local variables, \<open>total\<close> is written \<open>tot\<close> and \<open>insights\<close> is
  written \<open>ins\<close>.
\<close>

record persona =
  persona_id :: string
  name :: string
  role :: string
  company :: string
  psychographics :: string
  pastBehavior :: string

record email_draft =
  subject :: string
  body :: string
  cta :: string
  audience :: string
  sample_size :: int

record response =
  persona :: persona
  action :: string
  sentiment :: string
  comment :: json
  detailedReasoning :: json

record metrics =
  openRate :: int
  clickRate :: int
  replyRate :: int
  spamRate :: int
  ignoreRate :: int
  forwardRate :: int
  readRate :: int

record insight =
  insight_type :: string
  title :: json
  description :: json

record simulation_result =
  result_id :: string
  timestamp :: int
  result_metrics :: metrics
  insights :: "insight list"
  responses :: "response list"

section \<open>prompts.py and the oracle\<close>

text \<open>
  A prompt is kept as the arguments its text is rendered from (\<open>analyze_results\<close> reads
  the first five responses only). The oracle \<open>predict\<close> answers a prompt with a text or
  raises; it may answer the same prompt differently each time, so it carries a state of
  its own, of type \<open>'s\<close>. An answer that is not a text (\<open>None\<close>) makes \<open>replace\<close> or
  \<open>re.search\<close> raise inside the \<open>try\<close> block that asked, so it counts as raising.
\<close>

datatype prompt =
    Inbox_scan persona email_draft rat
  | Take_action persona email_draft
  | Analyze_results email_draft metrics "response list"

record 's simulator =
  llm :: "'s \<Rightarrow> prompt \<Rightarrow> (py_error + string) \<times> 's"
  embedding_service :: embedding_service

text \<open>
  What simulation.py takes from outside the repository's sources: the Unicode tables of
  the string methods, the two parsers, the built-in \<open>hash\<close>, the persona generator of
  profiles.py, and the two readings of \<open>time.time()\<close> that a run makes.
\<close>

record py_env =
  tables :: unicode_tables
  json_loads :: "string \<Rightarrow> py_error + json"
  literal_eval :: "string \<Rightarrow> py_error + json"
  py_hash :: "string \<Rightarrow> int"
  generate_personas :: "int \<Rightarrow> string \<Rightarrow> persona list"
  time_first :: rat
  time_second :: rat

section \<open>simulation.py: the Decision Engine\<close>

text \<open>The body of both \<open>try\<close> blocks of \<open>_simulate_single_persona\<close>: ask the oracle, drop
  the code fences, strip, parse.\<close>

definition predict_json ::
  "'s simulator \<Rightarrow> py_env \<Rightarrow> prompt \<Rightarrow> 's \<Rightarrow> (py_error + json) \<times> 's" where
  "predict_json sim env p s =
     (case llm sim s p of
        (Inl e, s') \<Rightarrow> (Inl e, s')
      | (Inr res_str, s') \<Rightarrow>
          (json_loads env
             (py_strip (tables env) (remove_all ''```'' (remove_all ''```json'' res_str))), s'))"

definition scan_default :: json where
  "scan_default = JObj [(''action'', JStr ''ignored''),
                        (''reason'', JStr ''Failed to parse decision''),
                        (''thought_process'', JStr ''Error parsing LLM response'')]"

definition act_default :: json where
  "act_default = JObj [(''final_action'', JStr ''opened''),
                       (''internal_monologue'', JStr ''Undecided'')]"

text \<open>Lines 133 to 139: the response returned, with \<open>comment or "No comment"\<close>.\<close>

definition make_response :: "persona \<Rightarrow> string \<Rightarrow> json \<Rightarrow> json \<Rightarrow> response" where
  "make_response p a c d =
     \<lparr> persona = p, action = a, sentiment = ''neutral'',
       comment = (if truthy c then c else JStr ''No comment''),
       detailedReasoning = d \<rparr>"

text \<open>Lines 89 to 94: the relevance score and the scan prompt.\<close>

definition prompt_a :: "'s simulator \<Rightarrow> py_env \<Rightarrow> email_draft \<Rightarrow> persona \<Rightarrow> prompt" where
  "prompt_a sim env draft p =
     (let persona_context =
            role p @ '' '' @ company p @ '' '' @ psychographics p @ '' '' @ pastBehavior p;
          relevance_score =
            get_similarity (embedding_service sim) (tables env) (subject draft) persona_context
      in Inbox_scan p draft relevance_score)"

text \<open>\<open>_simulate_single_persona\<close>. An exception outside the two \<open>try\<close> blocks leaves the
  function: the result is then \<open>Inl\<close>.\<close>

definition simulate_single_persona ::
  "'s simulator \<Rightarrow> py_env \<Rightarrow> email_draft \<Rightarrow> persona \<Rightarrow> 's \<Rightarrow> (py_error + response) \<times> 's" where
  "simulate_single_persona sim env draft p s =
     (let (tried_a, s1) = predict_json sim env (prompt_a sim env draft p) s;
          res_a = (case tried_a of Inl e \<Rightarrow> scan_default | Inr v \<Rightarrow> v)
      in
      or_raise (py_get res_a ''action'' (JStr ''ignored'')) s1 (\<lambda>action_value.
      or_raise (lower_of (tables env) action_value) s1 (\<lambda>scanned.
      let action0 = (if scanned \<notin> set [''opened'', ''ignored'', ''spam''] then ''ignored''
                     else scanned)
      in
      or_raise (py_get res_a ''reason'' (JStr ''Not relevant'')) s1 (\<lambda>reason.
      or_raise (py_get res_a ''thought_process'' reason) s1 (\<lambda>thought.
      if action0 = ''opened'' then
        (let (tried_c, s2) = predict_json sim env (Take_action p draft) s1;
             res_c = (case tried_c of Inl e \<Rightarrow> act_default | Inr v \<Rightarrow> v)
         in
         or_raise (py_get res_c ''final_action'' (JStr ''opened'')) s2 (\<lambda>final_value.
         or_raise (lower_of (tables env) final_value) s2 (\<lambda>final_action.
         let action1 = (if final_action \<in> set [''clicked'', ''replied''] then final_action
                        else action0)
         in
         or_raise (if action1 = ''replied'' then py_get res_c ''reply_text'' JNull
                   else py_get res_c ''internal_monologue'' reason) s2 (\<lambda>comment_value.
         or_raise (py_get res_c ''internal_monologue'' reason) s2 (\<lambda>monologue.
         (Inr (make_response p action1 comment_value monologue), s2))))))
      else (Inr (make_response p action0 reason thought), s1))))))"

section \<open>simulation.py: the Insight Generator\<close>

text \<open>\<open>re.search(r'\{.*\}', s, re.DOTALL)\<close>: from the first opening brace to the last
  closing brace behind it, if there is one.\<close>

definition json_match :: "string \<Rightarrow> string option" where
  "json_match s =
     (let from_brace = dropWhile (\<lambda>c. c \<noteq> CHR ''{'') s;
          m = rev (dropWhile (\<lambda>c. c \<noteq> CHR ''}'') (rev from_brace))
      in if m = [] then None else Some m)"

text \<open>\<open>json.loads\<close>, and \<open>ast.literal_eval\<close> when that raises \<open>JSONDecodeError\<close>.\<close>

definition loads_or_literal :: "py_env \<Rightarrow> string \<Rightarrow> py_error + json" where
  "loads_or_literal env cleaned =
     (case json_loads env cleaned of
        Inr data \<Rightarrow> Inr data
      | Inl JSONDecodeError \<Rightarrow> literal_eval env cleaned
      | Inl e \<Rightarrow> Inl e)"

definition normalize_type :: "string \<Rightarrow> string" where
  "normalize_type t =
     (if t = ''issue'' then ''negative''
      else if t \<notin> set [''positive'', ''negative'', ''warning''] then ''warning''
      else t)"

text \<open>The \<open>for item in data["insights"]\<close> loop. It appends to the list \<open>insights\<close> of the
  enclosing function (here \<open>ins\<close>), so an exception leaves the items appended before it in that list:
  the result is the list and the exception, if any.\<close>

fun collect_insights ::
  "unicode_tables \<Rightarrow> json list \<Rightarrow> insight list \<Rightarrow> insight list \<times> py_error option" where
  "collect_insights u [] ins = (ins, None)"
| "collect_insights u (item # items) ins =
     (case py_get item ''type'' (JStr ''warning'') of
        Inl e \<Rightarrow> (ins, Some e)
      | Inr type_value \<Rightarrow>
          (case lower_of u type_value of
             Inl e \<Rightarrow> (ins, Some e)
           | Inr t \<Rightarrow>
               (case py_get item ''title'' (JStr ''Insight'') of
                  Inl e \<Rightarrow> (ins, Some e)
                | Inr ttl \<Rightarrow>
                    (case py_get item ''description'' (JStr []) of
                       Inl e \<Rightarrow> (ins, Some e)
                     | Inr descr \<Rightarrow>
                         collect_insights u items
                           (ins @ [\<lparr> insight_type = normalize_type t, title = ttl,
                                          description = descr \<rparr>])))))"

definition low_open_title :: string where
  "low_open_title = utf8
     [208, 157, 208, 184, 208, 183, 208, 186, 208, 184, 208, 185, 32, 79, 112, 101, 110,
      32, 82, 97, 116, 101]"

definition low_open_description :: string where
  "low_open_description = utf8
     [208, 162, 208, 181, 208, 188, 208, 176, 32, 208, 191, 208, 184, 209, 129, 209, 140,
      208, 188, 208, 176, 32, 208, 189, 208, 181, 208, 180, 208, 190, 209, 129, 209, 130,
      208, 176, 209, 130, 208, 190, 209, 135, 208, 189, 208, 190, 32, 208, 191, 209, 128,
      208, 184, 208, 178, 208, 187, 208, 181, 208, 186, 208, 176, 209, 130, 208, 181, 208,
      187, 209, 140, 208, 189, 208, 176, 32, 208, 180, 208, 187, 209, 143, 32, 209, 141,
      209, 130, 208, 190, 208, 185, 32, 208, 176, 209, 131, 208, 180, 208, 184, 209, 130,
      208, 190, 209, 128, 208, 184, 208, 184, 46]"

definition high_open_title :: string where
  "high_open_title = utf8
     [208, 146, 209, 139, 209, 129, 208, 190, 208, 186, 208, 184, 208, 185, 32, 79, 112,
      101, 110, 32, 82, 97, 116, 101]"

definition high_open_description :: string where
  "high_open_description = utf8
     [208, 162, 208, 181, 208, 188, 208, 176, 32, 208, 191, 208, 184, 209, 129, 209, 140,
      208, 188, 208, 176, 32, 209, 128, 208, 176, 208, 177, 208, 190, 209, 130, 208, 176,
      208, 181, 209, 130, 32, 208, 190, 209, 130, 208, 187, 208, 184, 209, 135, 208, 189,
      208, 190, 46]"

definition spam_risk_title :: string where
  "spam_risk_title = utf8
     [208, 146, 209, 139, 209, 129, 208, 190, 208, 186, 208, 184, 208, 185, 32, 209, 128,
      208, 184, 209, 129, 208, 186, 32, 209, 129, 208, 191, 208, 176, 208, 188, 208, 176]"

definition spam_risk_description :: string where
  "spam_risk_description = utf8
     [208, 156, 208, 189, 208, 190, 208, 179, 208, 184, 208, 181, 32, 208, 191, 208, 190,
      208, 187, 209, 131, 209, 135, 208, 176, 209, 130, 208, 181, 208, 187, 208, 184, 32,
      208, 190, 209, 130, 208, 188, 208, 181, 209, 130, 208, 184, 208, 187, 208, 184, 32,
      208, 191, 208, 184, 209, 129, 209, 140, 208, 188, 208, 190, 32, 208, 186, 208, 176,
      208, 186, 32, 209, 129, 208, 191, 208, 176, 208, 188, 46, 32, 208, 159, 209, 128,
      208, 190, 208, 178, 208, 181, 209, 128, 209, 140, 209, 130, 208, 181, 32, 209, 129,
      209, 130, 208, 190, 208, 191, 45, 209, 129, 208, 187, 208, 190, 208, 178, 208, 176,
      46]"

text \<open>The fallback heuristics, lines 188 to 209: they append to \<open>insights\<close> (here \<open>ins\<close>) as it stands.\<close>

definition fallback_heuristics :: "metrics \<Rightarrow> insight list \<Rightarrow> insight list" where
  "fallback_heuristics m ins =
     (let ins1 =
            (if openRate m < 20 then
               ins @ [\<lparr> insight_type = ''negative'', title = JStr low_open_title,
                             description = JStr low_open_description \<rparr>]
             else if openRate m > 40 then
               ins @ [\<lparr> insight_type = ''positive'', title = JStr high_open_title,
                             description = JStr high_open_description \<rparr>]
             else ins)
      in if spamRate m > 10 then
           ins1 @ [\<lparr> insight_type = ''warning'', title = JStr spam_risk_title,
                          description = JStr spam_risk_description \<rparr>]
         else ins1)"

text \<open>
  \<open>_generate_insights\<close>. Every exception of the \<open>try\<close> block is caught, so the function
  always returns. Data that is not a dict reaches the heuristics with the empty list
  whatever it is: \<open>"insights" in data\<close> raises, or is false, or is true and
  \<open>data["insights"]\<close> raises.
\<close>

definition generate_insights ::
  "'s simulator \<Rightarrow> py_env \<Rightarrow> email_draft \<Rightarrow> metrics \<Rightarrow> response list \<Rightarrow> 's
     \<Rightarrow> insight list \<times> 's" where
  "generate_insights sim env draft m rs s =
     (case llm sim s (Analyze_results draft m (take 5 rs)) of
        (Inl e, s') \<Rightarrow> (fallback_heuristics m [], s')
      | (Inr llm_response, s') \<Rightarrow>
          (case json_match llm_response of
             None \<Rightarrow> (fallback_heuristics m [], s')
           | Some cleaned_response \<Rightarrow>
               (case loads_or_literal env cleaned_response of
                  Inl e \<Rightarrow> (fallback_heuristics m [], s')
                | Inr (JObj kvs) \<Rightarrow>
                    (case map_of kvs ''insights'' of
                       None \<Rightarrow> (fallback_heuristics m [], s')
                     | Some v \<Rightarrow>
                         (case py_iter v of
                            Inl e \<Rightarrow> (fallback_heuristics m [], s')
                          | Inr items \<Rightarrow>
                              (case collect_insights (tables env) items [] of
                                 (ins, Some e) \<Rightarrow> (fallback_heuristics m ins, s')
                               | (ins, None) \<Rightarrow> (ins, s'))))
                | Inr data \<Rightarrow> (fallback_heuristics m [], s'))))"

section \<open>simulation.py: the orchestrator\<close>

record counts =
  open_count :: int
  click_count :: int
  reply_count :: int
  spam_count :: int
  ignore_count :: int
  read_count :: int
  forward_count :: int

datatype event = Progress int int | Result simulation_result

text \<open>Lines 41 to 53: the counters after one more response.\<close>

definition update_counts :: "py_env \<Rightarrow> persona \<Rightarrow> response \<Rightarrow> counts \<Rightarrow> counts" where
  "update_counts env p r c =
     \<lparr> open_count = open_count c + (if action r = ''opened'' then 1 else 0),
       click_count = click_count c + (if action r = ''clicked'' then 1 else 0),
       reply_count = reply_count c + (if action r = ''replied'' then 1 else 0),
       spam_count = spam_count c + (if action r = ''spam'' then 1 else 0),
       ignore_count = ignore_count c + (if action r = ''ignored'' then 1 else 0),
       read_count = read_count c
         + (if action r \<in> set [''opened'', ''clicked'', ''replied''] then 1 else 0),
       forward_count = forward_count c
         + (if action r = ''clicked'' \<and> py_hash env (persona_id p) mod 5 = 0 then 1 else 0) \<rparr>"

text \<open>
  The \<open>for i, p in enumerate(personas)\<close> loop, from index \<open>i\<close> on. The result is the
  responses, the counters and the events yielded when the loop ends, and the exception
  that ended it if a Decision Engine call raised.
\<close>

fun simulate_personas ::
  "'s simulator \<Rightarrow> py_env \<Rightarrow> email_draft \<Rightarrow> int \<Rightarrow> int \<Rightarrow> persona list
     \<Rightarrow> response list \<Rightarrow> counts \<Rightarrow> event list \<Rightarrow> 's
     \<Rightarrow> (response list \<times> counts \<times> event list \<times> py_error option) \<times> 's" where
  "simulate_personas sim env draft tot i [] rs c evs s = ((rs, c, evs, None), s)"
| "simulate_personas sim env draft tot i (p # ps) rs c evs s =
     (case simulate_single_persona sim env draft p s of
        (Inl e, s') \<Rightarrow> ((rs, c, evs, Some e), s')
      | (Inr r, s') \<Rightarrow>
          simulate_personas sim env draft tot (i + 1) ps
            (rs @ [r]) (update_counts env p r c) (evs @ [Progress (i + 1) tot]) s')"

text \<open>One rate of lines 64 to 70: \<open>int((count / total) * 100) if total > 0 else 0\<close>.\<close>

definition rate :: "int \<Rightarrow> int \<Rightarrow> int" where
  "rate count tot =
     (if tot > 0 then py_int (fl (fl (of_int count / of_int tot) * 100)) else 0)"

definition zero_counts :: counts where
  "zero_counts = \<lparr> open_count = 0, click_count = 0, reply_count = 0, spam_count = 0,
                    ignore_count = 0, read_count = 0, forward_count = 0 \<rparr>"

definition compute_metrics :: "counts \<Rightarrow> int \<Rightarrow> metrics" where
  "compute_metrics c tot =
     \<lparr> openRate = rate (open_count c) tot,
       clickRate = rate (click_count c) tot,
       replyRate = rate (reply_count c) tot,
       spamRate = rate (spam_count c) tot,
       ignoreRate = rate (ignore_count c) tot,
       forwardRate = rate (forward_count c) tot,
       readRate = rate (read_count c) tot \<rparr>"

text \<open>
  \<open>run_simulation_stream\<close>: the events the generator yields, in order, and the exception
  that ended it, if any.
\<close>

definition run_simulation_stream ::
  "'s simulator \<Rightarrow> py_env \<Rightarrow> email_draft \<Rightarrow> 's \<Rightarrow> (event list \<times> py_error option) \<times> 's" where
  "run_simulation_stream sim env draft s =
     (let personas = generate_personas env (sample_size draft) (audience draft);
          tot = int (length personas)
      in case simulate_personas sim env draft tot 0 personas [] zero_counts [] s of
           ((rs, c, evs, Some e), s') \<Rightarrow> ((evs, Some e), s')
         | ((rs, c, evs, None), s') \<Rightarrow>
             (let m = compute_metrics c tot;
                  (ins, s'') = generate_insights sim env draft m rs s';
                  result = \<lparr> result_id = py_str (py_int (time_first env)),
                             timestamp = py_int (fl (time_second env * 1000)),
                             result_metrics = m, insights = ins, responses = rs \<rparr>
              in ((evs @ [Result result], None), s'')))"

section \<open>Example inputs\<close>

text \<open>
  A scripted oracle: it answers with the replies of its state, in turn, and with \<open>{}\<close>
  once they are used up (the text \<open>OpenAILLM.predict\<close> returns on a transport error).
\<close>

definition scripted ::
  "(py_error + string) list \<Rightarrow> prompt \<Rightarrow> (py_error + string) \<times> (py_error + string) list" where
  "scripted replies p = (case replies of [] \<Rightarrow> (Inr ''{}'', []) | r # rs \<Rightarrow> (r, rs))"

text \<open>The values of \<open>json.loads\<close> on the texts the examples use; on every other text of
  the examples it raises \<open>JSONDecodeError\<close>.\<close>

definition example_loads :: "string \<Rightarrow> py_error + json" where
  "example_loads s =
     (case map_of
        [(''{}'', JObj []),
         (''[]'', JArr []),
         (''{\"action\": \"opened\", \"reason\": \"Relevant\"}'',
            JObj [(''action'', JStr ''opened''), (''reason'', JStr ''Relevant'')]),
         (''{\"action\": \"clicked\", \"reason\": \"Looks fine\"}'',
            JObj [(''action'', JStr ''clicked''), (''reason'', JStr ''Looks fine'')]),
         (''{\"final_action\": \"forwarded\", \"internal_monologue\": \"Hm\"}'',
            JObj [(''final_action'', JStr ''forwarded''), (''internal_monologue'', JStr ''Hm'')]),
         (''{\"final_action\": \"CLICKED\", \"internal_monologue\": \"Nice\"}'',
            JObj [(''final_action'', JStr ''CLICKED''), (''internal_monologue'', JStr ''Nice'')]),
         (''{\"final_action\": null, \"internal_monologue\": \"Hm\"}'',
            JObj [(''final_action'', JNull), (''internal_monologue'', JStr ''Hm'')]),
         (''{\"final_action\": \"replied\", \"internal_monologue\": \"Worth a reply\"}'',
            JObj [(''final_action'', JStr ''replied''),
                  (''internal_monologue'', JStr ''Worth a reply'')]),
         (''{\"final_action\": \"replied\", \"reply_text\": \"Thanks\"}'',
            JObj [(''final_action'', JStr ''replied''), (''reply_text'', JStr ''Thanks'')]),
         (''{\"insights\": [{\"type\": \"positive\", \"title\": \"T\", \"description\": \"D\"}, 5]}'',
            JObj [(''insights'',
                   JArr [JObj [(''type'', JStr ''positive''), (''title'', JStr ''T''),
                               (''description'', JStr ''D'')],
                         JNum 5])])] s of
        Some v \<Rightarrow> Inr v
      | None \<Rightarrow> Inl JSONDecodeError)"

text \<open>The examples are ASCII texts, so the Unicode tables are never consulted.\<close>

definition example_tables :: unicode_tables where
  "example_tables =
     \<lparr> unicode_lower = (\<lambda>s. s), unicode_split = (\<lambda>s. [s]), unicode_strip = (\<lambda>s. s) \<rparr>"

definition alice :: persona where
  "alice = \<lparr> persona_id = ''alice'', name = ''Alice'', role = ''CTO'', company = ''Acme'',
             psychographics = ''pragmatic'', pastBehavior = ''opens product news'' \<rparr>"

definition bob :: persona where
  "bob = \<lparr> persona_id = ''bob'', name = ''Bob'', role = ''Buyer'', company = ''Initech'',
           psychographics = ''cautious'', pastBehavior = ''ignores cold mail'' \<rparr>"

definition example_env :: py_env where
  "example_env =
     \<lparr> tables = example_tables,
       json_loads = example_loads,
       literal_eval = (\<lambda>s. Inl (OtherError ''SyntaxError'')),
       py_hash = (\<lambda>s. int (length s)),
       generate_personas = (\<lambda>n a. take (nat n) [alice, bob]),
       time_first = 1700000000,
       time_second = 3400000001 / 2 \<rparr>"

definition example_sim :: "(py_error + string) list simulator" where
  "example_sim =
     \<lparr> llm = scripted,
       embedding_service = \<lparr> use_fallback = True,
                              encode_cosine = (\<lambda>a b. Inl (OtherError ''ImportError'')) \<rparr> \<rparr>"

definition example_draft :: "int \<Rightarrow> email_draft" where
  "example_draft n =
     \<lparr> subject = ''Product news for the CTO'', body = ''Hello'', cta = ''Book a demo'',
       audience = ''tech'', sample_size = n \<rparr>"

text \<open>A run over two personas: the first opens and clicks, the second's scan reply is not
  JSON, and the oracle call of the Insight Generator raises.\<close>

definition example_script :: "(py_error + string) list" where
  "example_script =
     [Inr ''```json{\"action\": \"opened\", \"reason\": \"Relevant\"}```'',
      Inr ''{\"final_action\": \"CLICKED\", \"internal_monologue\": \"Nice\"}'',
      Inr ''not json'',
      Inl (OtherError ''timeout'')]"

definition example_result :: simulation_result where
  "example_result =
     \<lparr> result_id = ''1700000000'',
       timestamp = 1700000000500,
       result_metrics = \<lparr> openRate = 0, clickRate = 50, replyRate = 0, spamRate = 0,
                           ignoreRate = 50, forwardRate = 50, readRate = 50 \<rparr>,
       insights = [\<lparr> insight_type = ''negative'', title = JStr low_open_title,
                      description = JStr low_open_description \<rparr>],
       responses =
         [\<lparr> persona = alice, action = ''clicked'', sentiment = ''neutral'',
             comment = JStr ''Nice'', detailedReasoning = JStr ''Nice'' \<rparr>,
          \<lparr> persona = bob, action = ''ignored'', sentiment = ''neutral'',
             comment = JStr ''Failed to parse decision'',
             detailedReasoning = JStr ''Error parsing LLM response'' \<rparr>] \<rparr>"

text \<open>The counters after a single persona that clicked and is counted as forwarding, and
  after the two personas of \<open>example_script\<close>.\<close>

definition counts_after_click :: counts where
  "counts_after_click =
     \<lparr> open_count = 0, click_count = 1, reply_count = 0, spam_count = 0,
       ignore_count = 0, read_count = 1, forward_count = 1 \<rparr>"

definition counts_after_script :: counts where
  "counts_after_script =
     \<lparr> open_count = 0, click_count = 1, reply_count = 0, spam_count = 0,
       ignore_count = 1, read_count = 1, forward_count = 1 \<rparr>"

text \<open>Metrics with a low open rate and a high spam rate, and an oracle reply to the
  analysis prompt whose second insight is not an object.\<close>

definition low_open_metrics :: metrics where
  "low_open_metrics =
     \<lparr> openRate = 10, clickRate = 0, replyRate = 0, spamRate = 15, ignoreRate = 75,
       forwardRate = 0, readRate = 10 \<rparr>"

definition broken_insights_reply :: string where
  "broken_insights_reply =
     ''Insights: {\"insights\": [{\"type\": \"positive\", \"title\": \"T\", \"description\": \"D\"}, 5]}''"

section \<open>Properties of the lexical similarity\<close>

lemma keyword_similarity_range:
  "0 \<le> keyword_similarity u a b \<and> keyword_similarity u a b \<le> 1"
proof -
  let ?A = "set (py_split u (py_lower u a)) - stop_words"
  let ?B = "set (py_split u (py_lower u b)) - stop_words"
  have fin: "finite (?A \<union> ?B)" by simp
  have "card (?A \<inter> ?B) \<le> card (?A \<union> ?B)"
    by (rule card_mono[OF fin]) blast
  then have le: "(of_nat (card (?A \<inter> ?B)) :: rat) \<le> of_nat (card (?A \<union> ?B))"
    by simp
  show ?thesis
  proof (cases "?A = {} \<or> ?B = {}")
    case True
    then show ?thesis by (auto simp: keyword_similarity_def Let_def)
  next
    case False
    then have "?A \<union> ?B \<noteq> {}" by blast
    with fin have "0 < card (?A \<union> ?B)" by (simp add: card_gt_0_iff)
    then have pos: "(0::rat) < of_nat (card (?A \<union> ?B))" by simp
    from False have eq: "keyword_similarity u a b =
        of_nat (card (?A \<inter> ?B)) / of_nat (card (?A \<union> ?B))"
      by (auto simp: keyword_similarity_def Let_def)
    from pos le show ?thesis unfolding eq by (simp add: divide_le_eq)
  qed
qed

text \<open>
  Claim C7. The lexical similarity is symmetric in its two texts; it is exactly 1 on two
  copies of a text that keeps at least one token once it is lower-cased, split at
  whitespace and freed of stop words; it is 0 whenever one of the two texts keeps no
  token; and it always lies between 0 and 1.
\<close>

theorem keyword_similarity_jaccard:
  "keyword_similarity u a b = keyword_similarity u b a
   \<and> (set (py_split u (py_lower u a)) - stop_words \<noteq> {} \<longrightarrow> keyword_similarity u a a = 1)
   \<and> (set (py_split u (py_lower u a)) - stop_words = {}
        \<or> set (py_split u (py_lower u b)) - stop_words = {} \<longrightarrow> keyword_similarity u a b = 0)
   \<and> 0 \<le> keyword_similarity u a b \<and> keyword_similarity u a b \<le> 1"
proof -
  let ?A = "set (py_split u (py_lower u a)) - stop_words"
  have sym: "keyword_similarity u a b = keyword_similarity u b a"
    by (auto simp: keyword_similarity_def Let_def Int_commute Un_commute)
  have refl: "?A \<noteq> {} \<longrightarrow> keyword_similarity u a a = 1"
  proof
    assume ne: "?A \<noteq> {}"
    have "finite ?A" by simp
    with ne have "0 < card ?A" by (simp add: card_gt_0_iff)
    with ne show "keyword_similarity u a a = 1"
      by (simp add: keyword_similarity_def Let_def)
  qed
  have zero: "?A = {} \<or> set (py_split u (py_lower u b)) - stop_words = {}
      \<longrightarrow> keyword_similarity u a b = 0"
    by (auto simp: keyword_similarity_def Let_def)
  from sym refl zero keyword_similarity_range[of u a b] show ?thesis by blast
qed

theorem keyword_similarity_jaccard_witness:
  "keyword_similarity example_tables ''The quick Fox'' ''a fox and a dog''
     = keyword_similarity example_tables ''a fox and a dog'' ''The quick Fox''
   \<and> keyword_similarity example_tables ''The quick Fox'' ''a fox and a dog'' = 1 / 3
   \<and> set (py_split example_tables (py_lower example_tables ''The quick Fox'')) - stop_words \<noteq> {}
   \<and> keyword_similarity example_tables ''The quick Fox'' ''The quick Fox'' = 1
   \<and> set (py_split example_tables (py_lower example_tables ''the  AND of'')) - stop_words = {}
   \<and> keyword_similarity example_tables ''the  AND of'' ''a fox and a dog'' = 0"
proof -
  have ne: "set (py_split example_tables (py_lower example_tables ''The quick Fox'')) - stop_words \<noteq> {}"
    by code_simp
  have emp: "set (py_split example_tables (py_lower example_tables ''the  AND of'')) - stop_words = {}"
    by code_simp
  have third: "keyword_similarity example_tables ''The quick Fox'' ''a fox and a dog'' = 1 / 3"
    by code_simp
  from keyword_similarity_jaccard[of example_tables "''The quick Fox''" "''a fox and a dog''"] ne
  have a: "keyword_similarity example_tables ''The quick Fox'' ''a fox and a dog''
             = keyword_similarity example_tables ''a fox and a dog'' ''The quick Fox''"
    and b: "keyword_similarity example_tables ''The quick Fox'' ''The quick Fox'' = 1"
    by blast+
  from keyword_similarity_jaccard[of example_tables "''the  AND of''" "''a fox and a dog''"] emp
  have c: "keyword_similarity example_tables ''the  AND of'' ''a fox and a dog'' = 0"
    by blast
  from a b c ne emp third show ?thesis by blast
qed

section \<open>Rounding is monotone\<close>

lemma pow2_powi: "pow2 e = 2 powi e"
  by (simp add: pow2_def power_int_def power_one_over field_simps)

lemma pow2_pos: "0 < pow2 e"
  by (simp add: pow2_powi)

lemma pow2_mono: "a \<le> b \<Longrightarrow> pow2 a \<le> pow2 b"
  by (simp add: pow2_powi power_int_increasing)

lemma pow2_less_cancel: "pow2 a < pow2 b \<Longrightarrow> a < b"
  using pow2_mono[of b a] by (cases "a < b") auto

lemma pow2_add: "pow2 (a + b) = pow2 a * pow2 b"
  by (simp add: pow2_powi power_int_add)

lemma pow2_nat: "pow2 (int n) = 2 ^ n"
  by (simp add: pow2_powi)

lemma binade_bounds:
  assumes "x \<noteq> 0"
  shows "pow2 (binade x) \<le> \<bar>x\<bar> \<and> \<bar>x\<bar> < pow2 (binade x + 1)"
proof -
  obtain p q where pq: "quotient_of \<bar>x\<bar> = (p, q)" by (cases "quotient_of \<bar>x\<bar>")
  have q: "0 < q" using pq by (rule quotient_of_denom_pos)
  have xpq: "\<bar>x\<bar> = of_int p / of_int q" using pq by (rule quotient_of_div)
  have "0 < \<bar>x\<bar>" using assms by simp
  with xpq q have p: "0 < p" by (simp add: zero_less_divide_iff)
  define bp where "bp = bitlen p"
  define bq where "bq = bitlen q"
  have bp1: "1 \<le> bp" and bq1: "1 \<le> bq"
    using p q by (auto simp: bp_def bq_def bitlen_alt_def)
  from bitlen_bounds[OF p] have pb: "2 ^ nat (bp - 1) \<le> p" "p < 2 ^ nat bp"
    by (auto simp: bp_def)
  from bitlen_bounds[OF q] have qb: "2 ^ nat (bq - 1) \<le> q" "q < 2 ^ nat bq"
    by (auto simp: bq_def)
  have P1: "pow2 (bp - 1) \<le> of_int p"
  proof -
    have "(of_int (2 ^ nat (bp - 1)) :: rat) \<le> of_int p" using pb(1) by (simp only: of_int_le_iff)
    then show ?thesis using bp1 by (simp add: pow2_def)
  qed
  have P2: "of_int p < pow2 bp"
  proof -
    have "(of_int p :: rat) < of_int (2 ^ nat bp)" using pb(2) by (simp only: of_int_less_iff)
    then show ?thesis using bp1 by (simp add: pow2_def)
  qed
  have Q1: "pow2 (bq - 1) \<le> of_int q"
  proof -
    have "(of_int (2 ^ nat (bq - 1)) :: rat) \<le> of_int q" using qb(1) by (simp only: of_int_le_iff)
    then show ?thesis using bq1 by (simp add: pow2_def)
  qed
  have Q2: "of_int q < pow2 bq"
  proof -
    have "(of_int q :: rat) < of_int (2 ^ nat bq)" using qb(2) by (simp only: of_int_less_iff)
    then show ?thesis using bq1 by (simp add: pow2_def)
  qed
  have qpos: "(0::rat) < of_int q" using q by simp
  have ppos: "(0::rat) < of_int p" using p by simp
  define d where "d = bp - bq"
  have lower: "pow2 (d - 1) < \<bar>x\<bar>"
  proof -
    have "pow2 (d - 1) * of_int q < pow2 (d - 1) * pow2 bq"
      using Q2 pow2_pos[of "d - 1"] by simp
    also have "\<dots> = pow2 (bp - 1)" by (simp add: d_def pow2_add[symmetric])
    also have "\<dots> \<le> of_int p" by (rule P1)
    finally show ?thesis using qpos by (simp add: xpq pos_less_divide_eq)
  qed
  have upper: "\<bar>x\<bar> < pow2 (d + 1)"
  proof -
    have "of_int p < pow2 bp" by (rule P2)
    also have "\<dots> = pow2 (d + 1) * pow2 (bq - 1)" by (simp add: d_def pow2_add[symmetric])
    also have "\<dots> \<le> pow2 (d + 1) * of_int q"
      using Q1 pow2_pos[of "d + 1"] by simp
    finally show ?thesis using qpos by (simp add: xpq pos_divide_less_eq)
  qed
  have b: "binade x = (if pow2 d \<le> \<bar>x\<bar> then d else d - 1)"
    by (simp add: binade_def pq d_def bp_def bq_def Let_def)
  show ?thesis
  proof (cases "pow2 d \<le> \<bar>x\<bar>")
    case True
    with b upper show ?thesis by simp
  next
    case False
    with b lower show ?thesis by (simp add: less_imp_le)
  qed
qed

lemma binade_unique:
  assumes "pow2 e \<le> \<bar>x\<bar>" and "\<bar>x\<bar> < pow2 (e + 1)"
  shows "binade x = e"
proof -
  have "x \<noteq> 0" using assms(1) pow2_pos[of e] by auto
  from binade_bounds[OF this] have b: "pow2 (binade x) \<le> \<bar>x\<bar>" "\<bar>x\<bar> < pow2 (binade x + 1)"
    by auto
  have "pow2 e < pow2 (binade x + 1)" using assms(1) b(2) by simp
  then have 1: "e < binade x + 1" by (rule pow2_less_cancel)
  have "pow2 (binade x) < pow2 (e + 1)" using assms(2) b(1) by simp
  then have 2: "binade x < e + 1" by (rule pow2_less_cancel)
  from 1 2 show ?thesis by simp
qed

lemma binade_mono:
  assumes "0 < x" and "x \<le> y"
  shows "binade x \<le> binade y"
proof -
  have x0: "x \<noteq> 0" and y0: "y \<noteq> 0" using assms by auto
  from binade_bounds[OF x0] binade_bounds[OF y0] assms
  have "pow2 (binade x) < pow2 (binade y + 1)" by simp
  then have "binade x < binade y + 1" by (rule pow2_less_cancel)
  then show ?thesis by simp
qed

lemma round_half_even_bounds:
  "\<lfloor>q\<rfloor> \<le> round_half_even q \<and> round_half_even q \<le> \<lfloor>q\<rfloor> + 1"
  by (simp add: round_half_even_def Let_def)

lemma round_half_even_of_int: "round_half_even (of_int n) = n"
  by (simp add: round_half_even_def Let_def)

lemma round_half_even_mono:
  assumes "a \<le> b"
  shows "round_half_even a \<le> round_half_even b"
proof (cases "\<lfloor>a\<rfloor> = \<lfloor>b\<rfloor>")
  case True
  have "a - of_int \<lfloor>a\<rfloor> \<le> b - of_int \<lfloor>b\<rfloor>" using assms True by simp
  then show ?thesis using True by (auto simp: round_half_even_def Let_def)
next
  case False
  have "\<lfloor>a\<rfloor> \<le> \<lfloor>b\<rfloor>" using assms by (rule floor_mono)
  with False have "\<lfloor>a\<rfloor> + 1 \<le> \<lfloor>b\<rfloor>" by simp
  with round_half_even_bounds[of a] round_half_even_bounds[of b] show ?thesis by linarith
qed

lemma fl_pos_eq:
  assumes "0 < x"
  shows "fl x = of_int (round_half_even (x / pow2 (binade x - 52))) * pow2 (binade x - 52)"
  using assms by (simp add: fl_def Let_def)

lemma fl_bounds:
  assumes "0 < x"
  shows "pow2 (binade x) \<le> fl x \<and> fl x \<le> pow2 (binade x + 1)"
proof -
  define e where "e = binade x"
  define u where "u = pow2 (e - 52)"
  have u: "0 < u" by (simp add: u_def pow2_pos)
  have x0: "x \<noteq> 0" using assms by simp
  from binade_bounds[OF x0] assms have b: "pow2 e \<le> x" "x < pow2 (e + 1)"
    by (auto simp: e_def)
  have e1: "pow2 e = of_int (2 ^ 52) * u"
  proof -
    have "pow2 e = pow2 (52 + (e - 52))" by (rule arg_cong[where f = pow2]) simp
    also have "\<dots> = pow2 52 * pow2 (e - 52)" by (rule pow2_add)
    finally show ?thesis using pow2_nat[of 52] by (simp add: u_def)
  qed
  have e2: "pow2 (e + 1) = of_int (2 ^ 53) * u"
  proof -
    have "pow2 (e + 1) = pow2 (53 + (e - 52))" by (rule arg_cong[where f = pow2]) simp
    also have "\<dots> = pow2 53 * pow2 (e - 52)" by (rule pow2_add)
    finally show ?thesis using pow2_nat[of 53] by (simp add: u_def)
  qed
  have lo: "of_int (2 ^ 52) \<le> x / u" using b(1) u by (simp add: e1 pos_le_divide_eq)
  have hi: "x / u \<le> of_int (2 ^ 53)" using b(2) u by (simp add: e2 pos_divide_le_eq)
  from round_half_even_mono[OF lo] have lo': "2 ^ 52 \<le> round_half_even (x / u)"
    by (simp only: round_half_even_of_int)
  from round_half_even_mono[OF hi] have hi': "round_half_even (x / u) \<le> 2 ^ 53"
    by (simp only: round_half_even_of_int)
  have f: "fl x = of_int (round_half_even (x / u)) * u"
    using fl_pos_eq[OF assms] by (simp add: u_def e_def)
  have "(of_int (2 ^ 52) :: rat) \<le> of_int (round_half_even (x / u))"
    using lo' by (simp only: of_int_le_iff)
  then have A: "pow2 e \<le> fl x" using u by (simp only: e1 f mult_le_cancel_right_pos)
  have "(of_int (round_half_even (x / u)) :: rat) \<le> of_int (2 ^ 53)"
    using hi' by (simp only: of_int_le_iff)
  then have B: "fl x \<le> pow2 (e + 1)" using u by (simp only: e2 f mult_le_cancel_right_pos)
  from A B show ?thesis by (simp add: e_def)
qed

lemma fl_nonneg: "0 \<le> x \<Longrightarrow> 0 \<le> fl x"
proof (cases "x = 0")
  case True
  then show ?thesis by (simp add: fl_def)
next
  case False
  assume "0 \<le> x"
  with False have "0 < x" by simp
  from fl_bounds[OF this] pow2_pos[of "binade x"] show ?thesis by linarith
qed

lemma fl_mono:
  assumes "0 \<le> x" and "x \<le> y"
  shows "fl x \<le> fl y"
proof (cases "x = 0")
  case True
  then show ?thesis using assms fl_nonneg[of y] by (simp add: fl_def)
next
  case False
  with assms have x: "0 < x" and y: "0 < y" by auto
  have le: "binade x \<le> binade y" using x assms(2) by (rule binade_mono)
  show ?thesis
  proof (cases "binade x = binade y")
    case True
    define u where "u = pow2 (binade y - 52)"
    have u: "0 < u" by (simp add: u_def pow2_pos)
    have "x / u \<le> y / u" using assms(2) u by (simp add: divide_right_mono)
    then have "round_half_even (x / u) \<le> round_half_even (y / u)"
      by (rule round_half_even_mono)
    then have "(of_int (round_half_even (x / u)) :: rat) \<le> of_int (round_half_even (y / u))"
      by (simp only: of_int_le_iff)
    then have "of_int (round_half_even (x / u)) * u \<le> of_int (round_half_even (y / u)) * u"
      using u by (simp only: mult_le_cancel_right_pos)
    then show ?thesis using fl_pos_eq[OF x] fl_pos_eq[OF y] True by (simp add: u_def)
  next
    case False
    with le have "binade x + 1 \<le> binade y" by simp
    then have "pow2 (binade x + 1) \<le> pow2 (binade y)" by (rule pow2_mono)
    with fl_bounds[OF x] fl_bounds[OF y] show ?thesis by linarith
  qed
qed

lemma rate_mono:
  assumes "0 \<le> a" and "a \<le> b"
  shows "rate a t \<le> rate b t"
proof (cases "0 < t")
  case False
  then show ?thesis by (simp add: rate_def)
next
  case True
  have t: "(0::rat) < of_int t" using True by simp
  have 1: "(0::rat) \<le> of_int a / of_int t" using assms(1) t by simp
  have 2: "(of_int a :: rat) / of_int t \<le> of_int b / of_int t"
    using assms(2) t by (simp add: divide_right_mono)
  have 3: "fl (of_int a / of_int t) \<le> fl (of_int b / of_int t)"
    using 1 2 by (rule fl_mono)
  have 4: "0 \<le> fl (of_int a / of_int t)" using 1 by (rule fl_nonneg)
  have 5: "0 \<le> fl (of_int a / of_int t) * 100" using 4 by simp
  have 6: "fl (of_int a / of_int t) * 100 \<le> fl (of_int b / of_int t) * 100" using 3 by simp
  have 7: "fl (fl (of_int a / of_int t) * 100) \<le> fl (fl (of_int b / of_int t) * 100)"
    using 5 6 by (rule fl_mono)
  have 8: "0 \<le> fl (fl (of_int a / of_int t) * 100)" using 5 by (rule fl_nonneg)
  have 9: "0 \<le> fl (fl (of_int b / of_int t) * 100)" using 8 7 by simp
  show ?thesis using True 7 8 9 by (simp add: rate_def py_int_def floor_mono)
qed

section \<open>The Decision Engine, case by case\<close>

lemma py_get_not_obj: "\<forall>kvs. d \<noteq> JObj kvs \<Longrightarrow> py_get d k dflt = Inl AttributeError"
  by (cases d) (simp_all add: py_get_def)

lemma lower_of_Inr: "lower_of u v = Inr a \<Longrightarrow> \<exists>t. v = JStr t \<and> a = py_lower u t"
  by (cases v) (simp_all add: lower_of_def)

lemma lower_of_Inl: "lower_of u v = Inl e \<Longrightarrow> e = AttributeError"
  by (cases v) (simp_all add: lower_of_def)

lemma truthy_comment: "truthy (comment (make_response p a c d))"
  by (simp add: make_response_def)

lemma action_make_response: "action (make_response p a c d) = a"
  by (simp add: make_response_def)

lemma comment_make_response:
  "comment (make_response p a c d) = (if truthy c then c else JStr ''No comment'')"
  by (simp add: make_response_def)

lemma engine_parse_failure:
  assumes "predict_json sim env (prompt_a sim env draft p) s = (Inl e, s1)"
  shows "simulate_single_persona sim env draft p s =
     (Inr (make_response p ''ignored'' (JStr ''Failed to parse decision'')
            (JStr ''Error parsing LLM response'')), s1)"
  using assms
  by (simp add: simulate_single_persona_def Let_def or_raise_def scan_default_def py_get_def
      lower_of_def py_lower_def is_ascii_def lower_char_def)

lemma engine_scan_not_obj:
  assumes "predict_json sim env (prompt_a sim env draft p) s = (Inr v, s1)"
    and "\<forall>kvs. v \<noteq> JObj kvs"
  shows "simulate_single_persona sim env draft p s = (Inl AttributeError, s1)"
  using assms(1) py_get_not_obj[OF assms(2)]
  by (simp add: simulate_single_persona_def Let_def or_raise_def)

lemma engine_scan_not_str:
  assumes "predict_json sim env (prompt_a sim env draft p) s = (Inr (JObj kvs), s1)"
    and "lower_of (tables env) (case map_of kvs ''action'' of Some v \<Rightarrow> v | None \<Rightarrow> JStr ''ignored'') = Inl e"
  shows "simulate_single_persona sim env draft p s = (Inl e, s1)"
  using assms
  by (simp add: simulate_single_persona_def Let_def or_raise_def py_get_def)

lemma engine_scan_terminal:
  assumes "predict_json sim env (prompt_a sim env draft p) s = (Inr (JObj kvs), s1)"
    and "lower_of (tables env) (case map_of kvs ''action'' of Some v \<Rightarrow> v | None \<Rightarrow> JStr ''ignored'') = Inr a"
    and "a \<noteq> ''opened''"
  shows "simulate_single_persona sim env draft p s =
     (Inr (make_response p (if a \<in> {''ignored'', ''spam''} then a else ''ignored'')
            (case map_of kvs ''reason'' of Some v \<Rightarrow> v | None \<Rightarrow> JStr ''Not relevant'')
            (case map_of kvs ''thought_process'' of Some v \<Rightarrow> v
             | None \<Rightarrow> (case map_of kvs ''reason'' of Some v \<Rightarrow> v
                         | None \<Rightarrow> JStr ''Not relevant''))), s1)"
  using assms
  by (simp add: simulate_single_persona_def Let_def or_raise_def py_get_def)

lemma engine_act_not_obj:
  assumes "predict_json sim env (prompt_a sim env draft p) s = (Inr (JObj kvs), s1)"
    and "lower_of (tables env) (case map_of kvs ''action'' of Some v \<Rightarrow> v | None \<Rightarrow> JStr ''ignored'')
           = Inr ''opened''"
    and "predict_json sim env (Take_action p draft) s1 = (Inr v, s2)"
    and "\<forall>kvc. v \<noteq> JObj kvc"
  shows "simulate_single_persona sim env draft p s = (Inl AttributeError, s2)"
  using assms(1-3) py_get_not_obj[OF assms(4)]
  by (simp add: simulate_single_persona_def Let_def or_raise_def py_get_def)

lemma engine_act_not_str:
  assumes "predict_json sim env (prompt_a sim env draft p) s = (Inr (JObj kvs), s1)"
    and "lower_of (tables env) (case map_of kvs ''action'' of Some v \<Rightarrow> v | None \<Rightarrow> JStr ''ignored'')
           = Inr ''opened''"
    and "predict_json sim env (Take_action p draft) s1 = (tried_c, s2)"
    and "(case tried_c of Inl e \<Rightarrow> act_default | Inr v \<Rightarrow> v) = JObj kvc"
    and "lower_of (tables env) (case map_of kvc ''final_action'' of Some v \<Rightarrow> v | None \<Rightarrow> JStr ''opened'')
           = Inl e"
  shows "simulate_single_persona sim env draft p s = (Inl e, s2)"
  using assms
  by (simp add: simulate_single_persona_def Let_def or_raise_def py_get_def)

lemma engine_act:
  assumes "predict_json sim env (prompt_a sim env draft p) s = (Inr (JObj kvs), s1)"
    and "lower_of (tables env) (case map_of kvs ''action'' of Some v \<Rightarrow> v | None \<Rightarrow> JStr ''ignored'')
           = Inr ''opened''"
    and "predict_json sim env (Take_action p draft) s1 = (tried_c, s2)"
    and "(case tried_c of Inl e \<Rightarrow> act_default | Inr v \<Rightarrow> v) = JObj kvc"
    and "lower_of (tables env) (case map_of kvc ''final_action'' of Some v \<Rightarrow> v | None \<Rightarrow> JStr ''opened'')
           = Inr f"
  shows "simulate_single_persona sim env draft p s =
     (Inr (make_response p (if f \<in> {''clicked'', ''replied''} then f else ''opened'')
            (if f = ''replied''
             then (case map_of kvc ''reply_text'' of Some v \<Rightarrow> v | None \<Rightarrow> JNull)
             else (case map_of kvc ''internal_monologue'' of Some v \<Rightarrow> v
                   | None \<Rightarrow> (case map_of kvs ''reason'' of Some v \<Rightarrow> v
                               | None \<Rightarrow> JStr ''Not relevant'')))
            (case map_of kvc ''internal_monologue'' of Some v \<Rightarrow> v
             | None \<Rightarrow> (case map_of kvs ''reason'' of Some v \<Rightarrow> v
                         | None \<Rightarrow> JStr ''Not relevant''))), s2)"
  using assms
  by (auto simp add: simulate_single_persona_def Let_def or_raise_def py_get_def)

text \<open>Whatever the two oracle replies are, a response that is returned was built by
  \<open>make_response\<close> from one of the five actions.\<close>

lemma engine_returns_made:
  assumes ret: "simulate_single_persona sim env draft p s = (Inr r, s')"
  shows "\<exists>a c d. r = make_response p a c d
           \<and> a \<in> {''opened'', ''clicked'', ''replied'', ''spam'', ''ignored''}"
proof -
  obtain ta s1 where A: "predict_json sim env (prompt_a sim env draft p) s = (ta, s1)"
    by (cases "predict_json sim env (prompt_a sim env draft p) s")
  show ?thesis
  proof (cases ta)
    case (Inl e)
    from engine_parse_failure[OF A[unfolded Inl]] ret
    have "r = make_response p ''ignored'' (JStr ''Failed to parse decision'')
                (JStr ''Error parsing LLM response'')" by simp
    then show ?thesis by blast
  next
    case (Inr v)
    note A' = A[unfolded Inr]
    show ?thesis
    proof (cases "\<exists>kvs. v = JObj kvs")
      case False
      then have "\<forall>kvs. v \<noteq> JObj kvs" by simp
      from engine_scan_not_obj[OF A' this] ret show ?thesis by simp
    next
      case True
      then obtain kvs where v: "v = JObj kvs" by blast
      note B = A'[unfolded v]
      let ?av = "case map_of kvs ''action'' of Some v \<Rightarrow> v | None \<Rightarrow> JStr ''ignored''"
      show ?thesis
      proof (cases "lower_of (tables env) ?av")
        case (Inl e)
        from engine_scan_not_str[OF B Inl] ret show ?thesis by simp
      next
        case (Inr a)
        show ?thesis
        proof (cases "a = ''opened''")
          case False
          from engine_scan_terminal[OF B Inr False] ret
          have r: "r = make_response p (if a \<in> {''ignored'', ''spam''} then a else ''ignored'')
              (case map_of kvs ''reason'' of Some v \<Rightarrow> v | None \<Rightarrow> JStr ''Not relevant'')
              (case map_of kvs ''thought_process'' of Some v \<Rightarrow> v
               | None \<Rightarrow> (case map_of kvs ''reason'' of Some v \<Rightarrow> v
                           | None \<Rightarrow> JStr ''Not relevant''))" by simp
          have "(if a \<in> {''ignored'', ''spam''} then a else ''ignored'')
                  \<in> {''opened'', ''clicked'', ''replied'', ''spam'', ''ignored''}" by simp
          with r show ?thesis by blast
        next
          case True
          note O = Inr[unfolded True]
          obtain tc s2 where C: "predict_json sim env (Take_action p draft) s1 = (tc, s2)"
            by (cases "predict_json sim env (Take_action p draft) s1")
          let ?rc = "case tc of Inl e \<Rightarrow> act_default | Inr v \<Rightarrow> v"
          show ?thesis
          proof (cases "\<exists>kvc. ?rc = JObj kvc")
            case False
            then obtain w where tc: "tc = Inr w" and w: "\<forall>kvc. w \<noteq> JObj kvc"
              by (cases tc) (auto simp: act_default_def)
            from engine_act_not_obj[OF B O C[unfolded tc] w] ret show ?thesis by simp
          next
            case True
            then obtain kvc where rc: "?rc = JObj kvc" by blast
            let ?fv = "case map_of kvc ''final_action'' of Some v \<Rightarrow> v | None \<Rightarrow> JStr ''opened''"
            show ?thesis
            proof (cases "lower_of (tables env) ?fv")
              case (Inl e)
              from engine_act_not_str[OF B O C rc Inl] ret show ?thesis by simp
            next
              case (Inr f)
              from engine_act[OF B O C rc Inr] ret
              have "\<exists>c d. r = make_response p
                      (if f \<in> {''clicked'', ''replied''} then f else ''opened'') c d"
                by auto
              moreover have "(if f \<in> {''clicked'', ''replied''} then f else ''opened'')
                  \<in> {''opened'', ''clicked'', ''replied'', ''spam'', ''ignored''}" by simp
              ultimately show ?thesis by blast
            qed
          qed
        qed
      qed
    qed
  qed
qed

section \<open>The examples, evaluated\<close>

lemma scripted_predict:
  "predict_json example_sim example_env pr (Inr txt # rest)
     = (example_loads (py_strip example_tables (remove_all ''```'' (remove_all ''```json'' txt))), rest)"
  by (simp add: predict_json_def example_sim_def example_env_def scripted_def)

lemma scripted_predict_raise:
  "predict_json example_sim example_env pr (Inl e # rest) = (Inl e, rest)"
  by (simp add: predict_json_def example_sim_def example_env_def scripted_def)

lemma scripted_predict_nil:
  "predict_json example_sim example_env pr [] = (Inr (JObj []), [])"
  by (simp add: predict_json_def example_sim_def example_env_def scripted_def py_strip_def
      is_ascii_def is_space_def example_loads_def)

lemmas example_defs = simulate_single_persona_def scripted_predict scripted_predict_raise
  scripted_predict_nil Let_def or_raise_def py_get_def lower_of_def py_lower_def is_ascii_def lower_char_def
  py_strip_def is_ascii_def is_space_def example_loads_def make_response_def scan_default_def act_default_def

lemma example_opened_forwarded:
  "simulate_single_persona example_sim example_env d q
     (Inr ''{\"action\": \"opened\", \"reason\": \"Relevant\"}'' #
      Inr ''{\"final_action\": \"forwarded\", \"internal_monologue\": \"Hm\"}'' # rest)
   = (Inr \<lparr> persona = q, action = ''opened'', sentiment = ''neutral'',
             comment = JStr ''Hm'', detailedReasoning = JStr ''Hm'' \<rparr>, rest)"
  by (simp add: example_defs)

lemma example_opened_clicked:
  "simulate_single_persona example_sim example_env d q
     (Inr ''```json{\"action\": \"opened\", \"reason\": \"Relevant\"}```'' #
      Inr ''{\"final_action\": \"CLICKED\", \"internal_monologue\": \"Nice\"}'' # rest)
   = (Inr \<lparr> persona = q, action = ''clicked'', sentiment = ''neutral'',
             comment = JStr ''Nice'', detailedReasoning = JStr ''Nice'' \<rparr>, rest)"
  by (simp add: example_defs)

lemma example_replied_without_text:
  "simulate_single_persona example_sim example_env d q
     (Inr ''{\"action\": \"opened\", \"reason\": \"Relevant\"}'' #
      Inr ''{\"final_action\": \"replied\", \"internal_monologue\": \"Worth a reply\"}'' # rest)
   = (Inr \<lparr> persona = q, action = ''replied'', sentiment = ''neutral'',
             comment = JStr ''No comment'', detailedReasoning = JStr ''Worth a reply'' \<rparr>, rest)"
  by (simp add: example_defs)

lemma example_replied_with_text:
  "simulate_single_persona example_sim example_env d q
     (Inr ''{\"action\": \"opened\", \"reason\": \"Relevant\"}'' #
      Inr ''{\"final_action\": \"replied\", \"reply_text\": \"Thanks\"}'' # rest)
   = (Inr \<lparr> persona = q, action = ''replied'', sentiment = ''neutral'',
             comment = JStr ''Thanks'', detailedReasoning = JStr ''Relevant'' \<rparr>, rest)"
  by (simp add: example_defs)

lemma example_not_json:
  "simulate_single_persona example_sim example_env d q (Inr ''not json'' # rest)
   = (Inr \<lparr> persona = q, action = ''ignored'', sentiment = ''neutral'',
             comment = JStr ''Failed to parse decision'',
             detailedReasoning = JStr ''Error parsing LLM response'' \<rparr>, rest)"
  by (simp add: example_defs)

lemma example_empty_object:
  "simulate_single_persona example_sim example_env d q (Inr ''{}'' # rest)
   = (Inr \<lparr> persona = q, action = ''ignored'', sentiment = ''neutral'',
             comment = JStr ''Not relevant'', detailedReasoning = JStr ''Not relevant'' \<rparr>, rest)"
  by (simp add: example_defs)

lemma example_scan_clicked:
  "simulate_single_persona example_sim example_env d q
     (Inr ''{\"action\": \"clicked\", \"reason\": \"Looks fine\"}'' # rest)
   = (Inr \<lparr> persona = q, action = ''ignored'', sentiment = ''neutral'',
             comment = JStr ''Looks fine'', detailedReasoning = JStr ''Looks fine'' \<rparr>, rest)"
  by (simp add: example_defs)

lemma example_scan_array:
  "simulate_single_persona example_sim example_env d q (Inr ''[]'' # rest)
   = (Inl AttributeError, rest)"
  by (simp add: example_defs)

lemma example_opened_null:
  "simulate_single_persona example_sim example_env d q
     (Inr ''{\"action\": \"opened\", \"reason\": \"Relevant\"}'' #
      Inr ''{\"final_action\": null, \"internal_monologue\": \"Hm\"}'' # rest)
   = (Inl AttributeError, rest)"
  by (simp add: example_defs)

section \<open>Claims about the Decision Engine\<close>

text \<open>
  Claim C1. Every response that \<open>_simulate_single_persona\<close> returns carries one of the
  five actions opened, clicked, replied, spam, ignored; in particular the action is never
  the empty string.
\<close>

theorem response_action_enumerated:
  assumes "simulate_single_persona sim env draft p s = (Inr r, s')"
  shows "action r \<in> {''opened'', ''clicked'', ''replied'', ''spam'', ''ignored''}
         \<and> action r \<noteq> []"
proof -
  from engine_returns_made[OF assms] obtain a c d
    where r: "r = make_response p a c d"
      and a: "a \<in> {''opened'', ''clicked'', ''replied'', ''spam'', ''ignored''}" by blast
  have "action r = a" by (simp add: r action_make_response)
  with a show ?thesis by auto
qed

theorem response_action_enumerated_witness:
  "simulate_single_persona example_sim example_env (example_draft 2) alice
     [Inr ''```json{\"action\": \"opened\", \"reason\": \"Relevant\"}```'',
      Inr ''{\"final_action\": \"CLICKED\", \"internal_monologue\": \"Nice\"}'']
   = (Inr \<lparr> persona = alice, action = ''clicked'', sentiment = ''neutral'',
             comment = JStr ''Nice'', detailedReasoning = JStr ''Nice'' \<rparr>, [])
   \<and> action \<lparr> persona = alice, action = ''clicked'', sentiment = ''neutral'',
               comment = JStr ''Nice'', detailedReasoning = JStr ''Nice'' \<rparr>
       \<in> {''opened'', ''clicked'', ''replied'', ''spam'', ''ignored''}"
  using response_action_enumerated[OF example_opened_clicked] example_opened_clicked
  by simp

text \<open>
  Claim C4, as the code has it. In the scan stage a reply that cannot be parsed (or an
  oracle call that raises) gives action ignored with the comment "Failed to parse
  decision". A reply that parses to an object whose action is absent, or is a string that
  is none of opened, ignored, spam once lower-cased, gives action ignored as well, without
  raising; its comment is the reply's own reason: "Not relevant" when the object has no
  reason, "No comment" when the reason is empty.
\<close>

theorem scan_clamps_to_ignored:
  assumes "predict_json sim env (prompt_a sim env draft p) s = (tried_a, s1)"
  shows "(\<forall>e. tried_a = Inl e \<longrightarrow>
            (\<exists>r. simulate_single_persona sim env draft p s = (Inr r, s1)
                 \<and> action r = ''ignored''
                 \<and> comment r = JStr ''Failed to parse decision''))
       \<and> (\<forall>kvs. tried_a = Inr (JObj kvs)
              \<and> (map_of kvs ''action'' = None
                  \<or> (\<exists>a. map_of kvs ''action'' = Some (JStr a)
                         \<and> py_lower (tables env) a \<notin> {''opened'', ''ignored'', ''spam''})) \<longrightarrow>
            (\<exists>r. simulate_single_persona sim env draft p s = (Inr r, s1)
                 \<and> action r = ''ignored''
                 \<and> comment r = (case map_of kvs ''reason'' of
                                  None \<Rightarrow> JStr ''Not relevant''
                                | Some v \<Rightarrow> if truthy v then v else JStr ''No comment'')))"
proof (intro conjI allI impI)
  fix e assume "tried_a = Inl e"
  with assms have "predict_json sim env (prompt_a sim env draft p) s = (Inl e, s1)" by simp
  from engine_parse_failure[OF this]
  show "\<exists>r. simulate_single_persona sim env draft p s = (Inr r, s1)
            \<and> action r = ''ignored'' \<and> comment r = JStr ''Failed to parse decision''"
    by (simp add: make_response_def)
next
  fix kvs
  assume H: "tried_a = Inr (JObj kvs)
              \<and> (map_of kvs ''action'' = None
                  \<or> (\<exists>a. map_of kvs ''action'' = Some (JStr a)
                         \<and> py_lower (tables env) a \<notin> {''opened'', ''ignored'', ''spam''}))"
  with assms have B: "predict_json sim env (prompt_a sim env draft p) s = (Inr (JObj kvs), s1)"
    by simp
  let ?av = "case map_of kvs ''action'' of Some v \<Rightarrow> v | None \<Rightarrow> JStr ''ignored''"
  let ?reason = "case map_of kvs ''reason'' of Some v \<Rightarrow> v | None \<Rightarrow> JStr ''Not relevant''"
  have "\<exists>b. lower_of (tables env) ?av = Inr b \<and> b \<noteq> ''opened''
            \<and> (if b \<in> {''ignored'', ''spam''} then b else ''ignored'') = ''ignored''"
  proof -
    from H have "map_of kvs ''action'' = None
        \<or> (\<exists>a. map_of kvs ''action'' = Some (JStr a)
               \<and> py_lower (tables env) a \<notin> {''opened'', ''ignored'', ''spam''})" by (rule conjunct2)
    then show ?thesis
    proof (elim disjE exE conjE)
      assume "map_of kvs ''action'' = None"
      then show ?thesis by (simp add: lower_of_def py_lower_def is_ascii_def lower_char_def)
    next
      fix a
      assume "map_of kvs ''action'' = Some (JStr a)"
        and "py_lower (tables env) a \<notin> {''opened'', ''ignored'', ''spam''}"
      then show ?thesis by (simp add: lower_of_def)
    qed
  qed
  then obtain b where b: "lower_of (tables env) ?av = Inr b" "b \<noteq> ''opened''"
      "(if b \<in> {''ignored'', ''spam''} then b else ''ignored'') = ''ignored''" by blast
  from engine_scan_terminal[OF B b(1) b(2)] b(3)
  have "simulate_single_persona sim env draft p s =
          (Inr (make_response p ''ignored'' ?reason
             (case map_of kvs ''thought_process'' of Some v \<Rightarrow> v | None \<Rightarrow> ?reason)), s1)"
    by simp
  then show "\<exists>r. simulate_single_persona sim env draft p s = (Inr r, s1)
            \<and> action r = ''ignored''
            \<and> comment r = (case map_of kvs ''reason'' of
                             None \<Rightarrow> JStr ''Not relevant''
                           | Some v \<Rightarrow> if truthy v then v else JStr ''No comment'')"
    by (simp add: make_response_def split: option.splits)
qed

theorem scan_clamps_to_ignored_witness:
  "(\<exists>r. simulate_single_persona example_sim example_env (example_draft 2) alice
            [Inr ''not json''] = (Inr r, [])
        \<and> action r = ''ignored'' \<and> comment r = JStr ''Failed to parse decision'')
   \<and> (\<exists>r. simulate_single_persona example_sim example_env (example_draft 2) alice
            [Inr ''{\"action\": \"clicked\", \"reason\": \"Looks fine\"}''] = (Inr r, [])
        \<and> action r = ''ignored'' \<and> comment r = JStr ''Looks fine'')"
proof -
  have p1: "predict_json example_sim example_env (prompt_a example_sim example_env (example_draft 2) alice)
              [Inr ''not json''] = (Inl JSONDecodeError, [])"
    by (simp add: scripted_predict py_strip_def is_ascii_def is_space_def example_loads_def)
  have p2: "predict_json example_sim example_env (prompt_a example_sim example_env (example_draft 2) alice)
              [Inr ''{\"action\": \"clicked\", \"reason\": \"Looks fine\"}'']
            = (Inr (JObj [(''action'', JStr ''clicked''), (''reason'', JStr ''Looks fine'')]), [])"
    by (simp add: scripted_predict py_strip_def is_ascii_def is_space_def example_loads_def)
  have low: "py_lower (tables example_env) ''clicked'' \<notin> {''opened'', ''ignored'', ''spam''}"
    by (simp add: py_lower_def is_ascii_def lower_char_def)
  from scan_clamps_to_ignored[OF p1] have a:
    "\<exists>r. simulate_single_persona example_sim example_env (example_draft 2) alice
            [Inr ''not json''] = (Inr r, [])
        \<and> action r = ''ignored'' \<and> comment r = JStr ''Failed to parse decision''"
    by simp
  from scan_clamps_to_ignored[OF p2] low have b:
    "\<exists>r. simulate_single_persona example_sim example_env (example_draft 2) alice
            [Inr ''{\"action\": \"clicked\", \"reason\": \"Looks fine\"}''] = (Inr r, [])
        \<and> action r = ''ignored'' \<and> comment r = JStr ''Looks fine''"
    by simp
  from a b show ?thesis by (rule conjI)
qed

text \<open>
  Claim C4 as stated fails: the oracle answers the scan prompt with \<open>{}\<close>, which parses
  to an object without an action. The action is ignored, but the comment is "Not
  relevant", not "Failed to parse decision".
\<close>

theorem scan_fixed_reason_counterexample:
  "example_loads ''{}'' = Inr (JObj [])
   \<and> simulate_single_persona example_sim example_env (example_draft 2) alice [Inr ''{}'']
       = (Inr \<lparr> persona = alice, action = ''ignored'', sentiment = ''neutral'',
                 comment = JStr ''Not relevant'', detailedReasoning = JStr ''Not relevant'' \<rparr>,
          [])
   \<and> comment \<lparr> persona = alice, action = ''ignored'', sentiment = ''neutral'',
                comment = JStr ''Not relevant'', detailedReasoning = JStr ''Not relevant'' \<rparr>
       \<noteq> JStr ''Failed to parse decision''"
  using example_empty_object by (simp add: example_loads_def)

text \<open>
  The act stage where \<open>final_action\<close> has a \<open>lower\<close> method. When the scan action is
  opened, the Decision Engine returns a response whose action is the lower-cased
  \<open>final_action\<close> if that is clicked or replied, and opened otherwise: when the reply
  cannot be parsed, when it has no \<open>final_action\<close>, and when \<open>final_action\<close> is any other
  string.
\<close>

lemma final_action_override:
  assumes "predict_json sim env (prompt_a sim env draft p) s = (Inr (JObj kvs), s1)"
    and "map_of kvs ''action'' = Some (JStr a)"
    and "py_lower (tables env) a = ''opened''"
    and "predict_json sim env (Take_action p draft) s1 = (tried_c, s2)"
  shows "(\<forall>e. tried_c = Inl e \<longrightarrow>
            (\<exists>r. simulate_single_persona sim env draft p s = (Inr r, s2)
                 \<and> action r = ''opened''))
       \<and> (\<forall>kvc. tried_c = Inr (JObj kvc) \<and> map_of kvc ''final_action'' = None \<longrightarrow>
            (\<exists>r. simulate_single_persona sim env draft p s = (Inr r, s2)
                 \<and> action r = ''opened''))
       \<and> (\<forall>kvc f. tried_c = Inr (JObj kvc) \<and> map_of kvc ''final_action'' = Some (JStr f) \<longrightarrow>
            (\<exists>r. simulate_single_persona sim env draft p s = (Inr r, s2)
                 \<and> action r = (if py_lower (tables env) f \<in> {''clicked'', ''replied''} then py_lower (tables env) f
                               else ''opened'')))"
proof -
  have O: "lower_of (tables env) (case map_of kvs ''action'' of Some v \<Rightarrow> v | None \<Rightarrow> JStr ''ignored'')
             = Inr ''opened''"
    using assms(2,3) by (simp add: lower_of_def)
  note act = engine_act[OF assms(1) O assms(4)]
  have low: "py_lower (tables env) ''opened'' = ''opened''" by (simp add: py_lower_def is_ascii_def lower_char_def)
  show ?thesis
  proof (intro conjI allI impI)
    fix e assume tc: "tried_c = Inl e"
    have rc: "(case tried_c of Inl e \<Rightarrow> act_default | Inr v \<Rightarrow> v)
                = JObj [(''final_action'', JStr ''opened''),
                        (''internal_monologue'', JStr ''Undecided'')]"
      by (simp add: tc act_default_def)
    have f: "lower_of (tables env) (case map_of [(''final_action'', JStr ''opened''),
                        (''internal_monologue'', JStr ''Undecided'')] ''final_action'' of
                Some v \<Rightarrow> v | None \<Rightarrow> JStr ''opened'') = Inr ''opened''"
      by (simp add: lower_of_def low)
    from act[OF rc f]
    show "\<exists>r. simulate_single_persona sim env draft p s = (Inr r, s2) \<and> action r = ''opened''"
      by (simp add: action_make_response)
  next
    fix kvc assume H: "tried_c = Inr (JObj kvc) \<and> map_of kvc ''final_action'' = None"
    then have rc: "(case tried_c of Inl e \<Rightarrow> act_default | Inr v \<Rightarrow> v) = JObj kvc" by simp
    have f: "lower_of (tables env) (case map_of kvc ''final_action'' of Some v \<Rightarrow> v
                       | None \<Rightarrow> JStr ''opened'') = Inr ''opened''"
      using H by (simp add: lower_of_def low)
    from act[OF rc f]
    show "\<exists>r. simulate_single_persona sim env draft p s = (Inr r, s2) \<and> action r = ''opened''"
      by (simp add: action_make_response)
  next
    fix kvc f
    assume H: "tried_c = Inr (JObj kvc) \<and> map_of kvc ''final_action'' = Some (JStr f)"
    then have rc: "(case tried_c of Inl e \<Rightarrow> act_default | Inr v \<Rightarrow> v) = JObj kvc" by simp
    have f: "lower_of (tables env) (case map_of kvc ''final_action'' of Some v \<Rightarrow> v
                       | None \<Rightarrow> JStr ''opened'') = Inr (py_lower (tables env) f)"
      using H by (simp add: lower_of_def)
    from act[OF rc f]
    show "\<exists>r. simulate_single_persona sim env draft p s = (Inr r, s2)
             \<and> action r = (if py_lower (tables env) f \<in> {''clicked'', ''replied''} then py_lower (tables env) f
                           else ''opened'')"
      by (simp add: action_make_response)
  qed
qed

lemma final_action_override_examples:
  "(\<exists>r. simulate_single_persona example_sim example_env (example_draft 2) alice
            [Inr ''{\"action\": \"opened\", \"reason\": \"Relevant\"}'',
             Inr ''{\"final_action\": \"forwarded\", \"internal_monologue\": \"Hm\"}'']
          = (Inr r, [])
        \<and> action r = ''opened'')
   \<and> (\<exists>r. simulate_single_persona example_sim example_env (example_draft 2) alice
            [Inr ''{\"action\": \"opened\", \"reason\": \"Relevant\"}'',
             Inr ''{\"final_action\": \"CLICKED\", \"internal_monologue\": \"Nice\"}'']
          = (Inr r, [])
        \<and> action r = ''clicked'')
   \<and> (\<exists>r. simulate_single_persona example_sim example_env (example_draft 2) alice
            [Inr ''{\"action\": \"opened\", \"reason\": \"Relevant\"}'', Inr ''not json'']
          = (Inr r, [])
        \<and> action r = ''opened'')"
proof -
  let ?scan = "''{\"action\": \"opened\", \"reason\": \"Relevant\"}''"
  have pa: "predict_json example_sim example_env (prompt_a example_sim example_env (example_draft 2) alice)
              (Inr ?scan # rest)
            = (Inr (JObj [(''action'', JStr ''opened''), (''reason'', JStr ''Relevant'')]), rest)"
    for rest
    by (simp add: scripted_predict py_strip_def is_ascii_def is_space_def example_loads_def)
  have m: "map_of [(''action'', JStr ''opened''), (''reason'', JStr ''Relevant'')] ''action''
             = Some (JStr ''opened'')" by simp
  have low: "py_lower (tables example_env) ''opened'' = ''opened''" by (simp add: py_lower_def is_ascii_def lower_char_def)
  have c1: "predict_json example_sim example_env (Take_action alice (example_draft 2))
              [Inr ''{\"final_action\": \"forwarded\", \"internal_monologue\": \"Hm\"}'']
            = (Inr (JObj [(''final_action'', JStr ''forwarded''),
                          (''internal_monologue'', JStr ''Hm'')]), [])"
    by (simp add: scripted_predict py_strip_def is_ascii_def is_space_def example_loads_def)
  have c2: "predict_json example_sim example_env (Take_action alice (example_draft 2))
              [Inr ''{\"final_action\": \"CLICKED\", \"internal_monologue\": \"Nice\"}'']
            = (Inr (JObj [(''final_action'', JStr ''CLICKED''),
                          (''internal_monologue'', JStr ''Nice'')]), [])"
    by (simp add: scripted_predict py_strip_def is_ascii_def is_space_def example_loads_def)
  have c3: "predict_json example_sim example_env (Take_action alice (example_draft 2))
              [Inr ''not json''] = (Inl JSONDecodeError, [])"
    by (simp add: scripted_predict py_strip_def is_ascii_def is_space_def example_loads_def)
  from final_action_override[OF pa m low c1] have a:
    "\<exists>r. simulate_single_persona example_sim example_env (example_draft 2) alice
            [Inr ?scan,
             Inr ''{\"final_action\": \"forwarded\", \"internal_monologue\": \"Hm\"}'']
          = (Inr r, [])
        \<and> action r = ''opened''"
    by (simp add: py_lower_def is_ascii_def lower_char_def)
  from final_action_override[OF pa m low c2] have b:
    "\<exists>r. simulate_single_persona example_sim example_env (example_draft 2) alice
            [Inr ?scan,
             Inr ''{\"final_action\": \"CLICKED\", \"internal_monologue\": \"Nice\"}'']
          = (Inr r, [])
        \<and> action r = ''clicked''"
    by (simp add: py_lower_def is_ascii_def lower_char_def)
  from final_action_override[OF pa m low c3] have c:
    "\<exists>r. simulate_single_persona example_sim example_env (example_draft 2) alice
            [Inr ?scan, Inr ''not json''] = (Inr r, [])
        \<and> action r = ''opened''"
    by simp
  from a b c show ?thesis by (intro conjI)
qed

text \<open>
  The act stage where \<open>final_action\<close> has no \<open>lower\<close> method, or the reply no \<open>get\<close>
  method: the call at line 126 is outside the \<open>try\<close> block, so a reply that parses to
  something else than an object, or to an object whose \<open>final_action\<close> is not a string,
  makes the Decision Engine raise.
\<close>

lemma final_action_raises:
  assumes "predict_json sim env (prompt_a sim env draft p) s = (Inr (JObj kvs), s1)"
    and "map_of kvs ''action'' = Some (JStr a)"
    and "py_lower (tables env) a = ''opened''"
    and "predict_json sim env (Take_action p draft) s1 = (Inr v, s2)"
    and "(\<forall>kvc. v \<noteq> JObj kvc)
         \<or> (\<exists>kvc w. v = JObj kvc \<and> map_of kvc ''final_action'' = Some w \<and> (\<forall>f. w \<noteq> JStr f))"
  shows "simulate_single_persona sim env draft p s = (Inl AttributeError, s2)"
proof -
  have O: "lower_of (tables env) (case map_of kvs ''action'' of Some v \<Rightarrow> v | None \<Rightarrow> JStr ''ignored'')
             = Inr ''opened''"
    using assms(2,3) by (simp add: lower_of_def)
  from assms(5) show ?thesis
  proof (elim disjE exE conjE)
    assume "\<forall>kvc. v \<noteq> JObj kvc"
    from engine_act_not_obj[OF assms(1) O assms(4) this] show ?thesis .
  next
    fix kvc w
    assume v: "v = JObj kvc" and w: "map_of kvc ''final_action'' = Some w" "\<forall>f. w \<noteq> JStr f"
    have rc: "(case (Inr v :: py_error + json) of Inl e \<Rightarrow> act_default | Inr v \<Rightarrow> v) = JObj kvc"
      by (simp add: v)
    have f: "lower_of (tables env) (case map_of kvc ''final_action'' of Some v \<Rightarrow> v
                       | None \<Rightarrow> JStr ''opened'') = Inl AttributeError"
      using w by (cases w) (simp_all add: lower_of_def)
    from engine_act_not_str[OF assms(1) O assms(4) rc f] show ?thesis .
  qed
qed

text \<open>
  Claim C9 as stated fails: the scan action is opened and the act stage answers replied
  with an internal monologue but no reply text. The comment is the placeholder, not the
  monologue (which is kept as the detailed reasoning only).
\<close>

theorem reply_fallback_counterexample:
  "simulate_single_persona example_sim example_env (example_draft 2) alice
     [Inr ''{\"action\": \"opened\", \"reason\": \"Relevant\"}'',
      Inr ''{\"final_action\": \"replied\", \"internal_monologue\": \"Worth a reply\"}'']
   = (Inr \<lparr> persona = alice, action = ''replied'', sentiment = ''neutral'',
             comment = JStr ''No comment'', detailedReasoning = JStr ''Worth a reply'' \<rparr>, [])
   \<and> comment \<lparr> persona = alice, action = ''replied'', sentiment = ''neutral'',
                comment = JStr ''No comment'', detailedReasoning = JStr ''Worth a reply'' \<rparr>
       \<noteq> JStr ''Worth a reply''
   \<and> comment \<lparr> persona = alice, action = ''replied'', sentiment = ''neutral'',
                comment = JStr ''No comment'', detailedReasoning = JStr ''Worth a reply'' \<rparr>
       \<noteq> JStr ''Relevant''"
  using example_replied_without_text by simp

text \<open>
  Claim C9, as the code has it. The comment of a returned response is never empty and
  never null. When the act stage ends with action replied, the comment is the reply text
  if the reply has a non-empty one, and the placeholder "No comment" otherwise: neither
  the internal monologue nor the scan reason is used.
\<close>

theorem comment_of_reply:
  "(simulate_single_persona sim env draft p s = (Inr r, s')
      \<longrightarrow> truthy (comment r) \<and> comment r \<noteq> JStr [] \<and> comment r \<noteq> JNull)
   \<and> (predict_json sim env (prompt_a sim env draft p) s = (Inr (JObj kvs), s1)
      \<and> map_of kvs ''action'' = Some (JStr a) \<and> py_lower (tables env) a = ''opened''
      \<and> predict_json sim env (Take_action p draft) s1 = (Inr (JObj kvc), s2)
      \<and> map_of kvc ''final_action'' = Some (JStr f) \<and> py_lower (tables env) f = ''replied''
      \<longrightarrow> (\<exists>r. simulate_single_persona sim env draft p s = (Inr r, s2)
               \<and> action r = ''replied''
               \<and> comment r = (case map_of kvc ''reply_text'' of
                                None \<Rightarrow> JStr ''No comment''
                              | Some v \<Rightarrow> if truthy v then v else JStr ''No comment'')))"
proof (rule conjI; rule impI)
  assume ret: "simulate_single_persona sim env draft p s = (Inr r, s')"
  from engine_returns_made[OF ret] obtain b c d where r: "r = make_response p b c d" by blast
  have t: "truthy (comment r)" unfolding r by (rule truthy_comment)
  then show "truthy (comment r) \<and> comment r \<noteq> JStr [] \<and> comment r \<noteq> JNull" by auto
next
  assume H: "predict_json sim env (prompt_a sim env draft p) s = (Inr (JObj kvs), s1)
      \<and> map_of kvs ''action'' = Some (JStr a) \<and> py_lower (tables env) a = ''opened''
      \<and> predict_json sim env (Take_action p draft) s1 = (Inr (JObj kvc), s2)
      \<and> map_of kvc ''final_action'' = Some (JStr f) \<and> py_lower (tables env) f = ''replied''"
  then have A: "predict_json sim env (prompt_a sim env draft p) s = (Inr (JObj kvs), s1)"
    and C: "predict_json sim env (Take_action p draft) s1 = (Inr (JObj kvc), s2)"
    and ma: "map_of kvs ''action'' = Some (JStr a)" and la: "py_lower (tables env) a = ''opened''"
    and mf: "map_of kvc ''final_action'' = Some (JStr f)" and lf: "py_lower (tables env) f = ''replied''"
    by simp_all
  have O: "lower_of (tables env) (case map_of kvs ''action'' of Some v \<Rightarrow> v | None \<Rightarrow> JStr ''ignored'')
             = Inr ''opened''"
    using ma la by (simp add: lower_of_def)
  have rc: "(case Inr (JObj kvc) of Inl e \<Rightarrow> act_default | Inr v \<Rightarrow> v) = JObj kvc" by simp
  have F: "lower_of (tables env) (case map_of kvc ''final_action'' of Some v \<Rightarrow> v | None \<Rightarrow> JStr ''opened'')
             = Inr ''replied''"
    using mf lf by (simp add: lower_of_def)
  from engine_act[OF A O C rc F]
  show "\<exists>r. simulate_single_persona sim env draft p s = (Inr r, s2)
          \<and> action r = ''replied''
          \<and> comment r = (case map_of kvc ''reply_text'' of
                           None \<Rightarrow> JStr ''No comment''
                         | Some v \<Rightarrow> if truthy v then v else JStr ''No comment'')"
    by (simp add: make_response_def split: option.splits)
qed

theorem comment_of_reply_witness:
  "truthy (comment \<lparr> persona = alice, action = ''replied'', sentiment = ''neutral'',
                     comment = JStr ''No comment'',
                     detailedReasoning = JStr ''Worth a reply'' \<rparr>)
   \<and> (\<exists>r. simulate_single_persona example_sim example_env (example_draft 2) alice
            [Inr ''{\"action\": \"opened\", \"reason\": \"Relevant\"}'',
             Inr ''{\"final_action\": \"replied\", \"reply_text\": \"Thanks\"}'']
          = (Inr r, [])
        \<and> action r = ''replied'' \<and> comment r = JStr ''Thanks'')"
proof -
  have pa: "predict_json example_sim example_env (prompt_a example_sim example_env (example_draft 2) alice)
              [Inr ''{\"action\": \"opened\", \"reason\": \"Relevant\"}'',
               Inr ''{\"final_action\": \"replied\", \"reply_text\": \"Thanks\"}'']
            = (Inr (JObj [(''action'', JStr ''opened''), (''reason'', JStr ''Relevant'')]),
               [Inr ''{\"final_action\": \"replied\", \"reply_text\": \"Thanks\"}''])"
    by (simp add: scripted_predict py_strip_def is_ascii_def is_space_def example_loads_def)
  have pc: "predict_json example_sim example_env (Take_action alice (example_draft 2))
              [Inr ''{\"final_action\": \"replied\", \"reply_text\": \"Thanks\"}'']
            = (Inr (JObj [(''final_action'', JStr ''replied''),
                          (''reply_text'', JStr ''Thanks'')]), [])"
    by (simp add: scripted_predict py_strip_def is_ascii_def is_space_def example_loads_def)
  have lo: "py_lower (tables example_env) ''opened'' = ''opened''" "py_lower (tables example_env) ''replied'' = ''replied''"
    by (simp_all add: py_lower_def is_ascii_def lower_char_def)
  note inst = comment_of_reply[of example_sim example_env "example_draft 2" alice
      "[Inr ''{\"action\": \"opened\", \"reason\": \"Relevant\"}'',
        Inr ''{\"final_action\": \"replied\", \"internal_monologue\": \"Worth a reply\"}'']"
      "\<lparr> persona = alice, action = ''replied'', sentiment = ''neutral'',
         comment = JStr ''No comment'', detailedReasoning = JStr ''Worth a reply'' \<rparr>" "[]"]
  from inst example_replied_without_text
  have a: "truthy (comment \<lparr> persona = alice, action = ''replied'', sentiment = ''neutral'',
                     comment = JStr ''No comment'',
                     detailedReasoning = JStr ''Worth a reply'' \<rparr>)"
    by blast
  from comment_of_reply[of example_sim example_env "example_draft 2" alice _ _ _
      "[(''action'', JStr ''opened''), (''reason'', JStr ''Relevant'')]" _ "''opened''"
      "[(''final_action'', JStr ''replied''), (''reply_text'', JStr ''Thanks'')]" "[]"
      "''replied''"] pa pc lo
  have b: "\<exists>r. simulate_single_persona example_sim example_env (example_draft 2) alice
            [Inr ''{\"action\": \"opened\", \"reason\": \"Relevant\"}'',
             Inr ''{\"final_action\": \"replied\", \"reply_text\": \"Thanks\"}'']
          = (Inr r, [])
        \<and> action r = ''replied'' \<and> comment r = JStr ''Thanks''"
    by simp
  from a b show ?thesis by (rule conjI)
qed

section \<open>The orchestrator's loop\<close>

lemma update_counts_five:
  assumes "action r \<in> {''opened'', ''clicked'', ''replied'', ''spam'', ''ignored''}"
  shows "open_count (update_counts env p r c) + click_count (update_counts env p r c)
         + reply_count (update_counts env p r c) + spam_count (update_counts env p r c)
         + ignore_count (update_counts env p r c)
         = open_count c + click_count c + reply_count c + spam_count c + ignore_count c + 1"
  using assms by (elim insertE emptyE) (simp_all add: update_counts_def)

lemma update_counts_forward:
  "forward_count c \<le> forward_count (update_counts env p r c)
   \<and> forward_count (update_counts env p r c) - forward_count c
       \<le> click_count (update_counts env p r c) - click_count c"
  by (simp add: update_counts_def)

lemma loop_shape:
  "simulate_personas sim env draft tot i ps rs c evs s = ((rs', c', evs', err), s')
   \<Longrightarrow> \<exists>k. k \<le> length ps \<and> (err = None \<longrightarrow> k = length ps) \<and> (err \<noteq> None \<longrightarrow> k < length ps)
          \<and> length rs' = length rs + k
          \<and> evs' = evs @ map (\<lambda>j. Progress (i + int j) tot) [1..<Suc k]"
proof (induction ps arbitrary: i rs c evs s)
  case Nil
  then show ?case by auto
next
  case (Cons p ps)
  obtain x s1 where E: "simulate_single_persona sim env draft p s = (x, s1)"
    by (cases "simulate_single_persona sim env draft p s")
  show ?case
  proof (cases x)
    case (Inl e)
    with Cons.prems E have "rs' = rs" "evs' = evs" "err = Some e" by simp_all
    then show ?thesis by (intro exI[of _ 0]) simp
  next
    case (Inr r)
    with Cons.prems E have
      "simulate_personas sim env draft tot (i + 1) ps (rs @ [r]) (update_counts env p r c)
         (evs @ [Progress (i + 1) tot]) s1 = ((rs', c', evs', err), s')" by simp
    from Cons.IH[OF this] obtain k where k: "k \<le> length ps" "err = None \<longrightarrow> k = length ps"
      "err \<noteq> None \<longrightarrow> k < length ps" "length rs' = length (rs @ [r]) + k"
      "evs' = (evs @ [Progress (i + 1) tot])
              @ map (\<lambda>j. Progress (i + 1 + int j) tot) [1..<Suc k]" by blast
    have "map (\<lambda>j. Progress (i + int j) tot) [1..<Suc (Suc k)]
          = Progress (i + 1) tot # map (\<lambda>j. Progress (i + 1 + int j) tot) [1..<Suc k]"
    proof -
      have "[1..<Suc (Suc k)] = 1 # map Suc [1..<Suc k]"
        by (simp add: upt_conv_Cons map_Suc_upt del: upt_Suc)
      then show ?thesis by (simp add: comp_def add.commute add.left_commute)
    qed
    with k show ?thesis by (intro exI[of _ "Suc k"]) simp
  qed
qed

lemma loop_five:
  "simulate_personas sim env draft tot i ps rs c evs s = ((rs', c', evs', err), s')
   \<Longrightarrow> open_count c' + click_count c' + reply_count c' + spam_count c' + ignore_count c'
         + int (length rs)
       = open_count c + click_count c + reply_count c + spam_count c + ignore_count c
         + int (length rs')"
proof (induction ps arbitrary: i rs c evs s)
  case Nil
  then show ?case by simp
next
  case (Cons p ps)
  obtain x s1 where E: "simulate_single_persona sim env draft p s = (x, s1)"
    by (cases "simulate_single_persona sim env draft p s")
  show ?case
  proof (cases x)
    case (Inl e)
    with Cons.prems E show ?thesis by simp
  next
    case (Inr r)
    with Cons.prems E have
      "simulate_personas sim env draft tot (i + 1) ps (rs @ [r]) (update_counts env p r c)
         (evs @ [Progress (i + 1) tot]) s1 = ((rs', c', evs', err), s')" by simp
    from Cons.IH[OF this] have IH:
      "open_count c' + click_count c' + reply_count c' + spam_count c' + ignore_count c'
         + int (length (rs @ [r]))
       = open_count (update_counts env p r c) + click_count (update_counts env p r c)
         + reply_count (update_counts env p r c) + spam_count (update_counts env p r c)
         + ignore_count (update_counts env p r c) + int (length rs')" .
    from E Inr have "simulate_single_persona sim env draft p s = (Inr r, s1)" by simp
    from engine_returns_made[OF this] have
      "action r \<in> {''opened'', ''clicked'', ''replied'', ''spam'', ''ignored''}"
      by (auto simp: action_make_response)
    from update_counts_five[OF this, of env p c] IH show ?thesis by simp
  qed
qed

lemma loop_forward:
  "simulate_personas sim env draft tot i ps rs c evs s = ((rs', c', evs', err), s')
   \<Longrightarrow> forward_count c \<le> forward_count c'
       \<and> forward_count c' - forward_count c \<le> click_count c' - click_count c"
proof (induction ps arbitrary: i rs c evs s)
  case Nil
  then show ?case by simp
next
  case (Cons p ps)
  obtain x s1 where E: "simulate_single_persona sim env draft p s = (x, s1)"
    by (cases "simulate_single_persona sim env draft p s")
  show ?case
  proof (cases x)
    case (Inl e)
    with Cons.prems E show ?thesis by simp
  next
    case (Inr r)
    with Cons.prems E have
      "simulate_personas sim env draft tot (i + 1) ps (rs @ [r]) (update_counts env p r c)
         (evs @ [Progress (i + 1) tot]) s1 = ((rs', c', evs', err), s')" by simp
    from Cons.IH[OF this] update_counts_forward[of c env p r] show ?thesis by linarith
  qed
qed

lemma loop_responses:
  "simulate_personas sim env draft tot i ps rs c evs s = ((rs', c', evs', err), s')
   \<Longrightarrow> take (length rs) rs' = rs"
proof (induction ps arbitrary: i rs c evs s)
  case Nil
  then show ?case by simp
next
  case (Cons p ps)
  obtain x s1 where E: "simulate_single_persona sim env draft p s = (x, s1)"
    by (cases "simulate_single_persona sim env draft p s")
  show ?case
  proof (cases x)
    case (Inl e)
    with Cons.prems E show ?thesis by simp
  next
    case (Inr r)
    with Cons.prems E have
      "simulate_personas sim env draft tot (i + 1) ps (rs @ [r]) (update_counts env p r c)
         (evs @ [Progress (i + 1) tot]) s1 = ((rs', c', evs', err), s')" by simp
    from Cons.IH[OF this] have "take (length (rs @ [r])) rs' = rs @ [r]" .
    then have "take (length rs) (take (length (rs @ [r])) rs') = take (length rs) (rs @ [r])"
      by simp
    then show ?thesis by (simp add: min_def)
  qed
qed

text \<open>What \<open>run_simulation_stream\<close> yields, from what its loop returned.\<close>

lemma run_aborted:
  assumes "simulate_personas sim env draft
             (int (length (generate_personas env (sample_size draft) (audience draft)))) 0
             (generate_personas env (sample_size draft) (audience draft)) [] zero_counts [] s
           = ((rs, c, evs, Some e), s1)"
  shows "run_simulation_stream sim env draft s = ((evs, Some e), s1)"
  using assms by (simp add: run_simulation_stream_def Let_def)

lemma run_completed:
  assumes "simulate_personas sim env draft
             (int (length (generate_personas env (sample_size draft) (audience draft)))) 0
             (generate_personas env (sample_size draft) (audience draft)) [] zero_counts [] s
           = ((rs, c, evs, None), s1)"
  shows "\<exists>res s2. run_simulation_stream sim env draft s = ((evs @ [Result res], None), s2)
           \<and> responses res = rs
           \<and> result_metrics res = compute_metrics c
               (int (length (generate_personas env (sample_size draft) (audience draft))))"
  using assms by (simp add: run_simulation_stream_def Let_def split: prod.splits)

lemma progress_only:
  "Result res \<notin> set (map (\<lambda>j. Progress (i + int j) tot) js)"
  by (induction js) simp_all

lemma rate_zero_total: "rate k 0 = 0"
  by (simp add: rate_def)

section \<open>The example runs, evaluated\<close>

lemma example_rates: "rate 0 2 = 0" "rate 1 2 = 50"
  by code_simp+

lemma example_clock:
  "py_str (py_int (time_first example_env)) = ''1700000000''"
  "py_int (fl (time_second example_env * 1000)) = 1700000000500"
proof -
  have t1: "time_first example_env = 1700000000" by (simp add: example_env_def)
  show "py_str (py_int (time_first example_env)) = ''1700000000''"
    by (simp add: t1 py_int_def py_str_def)
  have t2: "time_second example_env * 1000 = 1700000000500" by (simp add: example_env_def)
  have r: "fl 1700000000500 = 1700000000500" by code_simp
  show "py_int (fl (time_second example_env * 1000)) = 1700000000500"
    by (simp add: t2 r py_int_def)
qed

lemma example_personas:
  "generate_personas example_env (sample_size (example_draft 2)) (audience (example_draft 2))
     = [alice, bob]"
  "generate_personas example_env (sample_size (example_draft 1)) (audience (example_draft 1))
     = [alice]"
  by (simp_all add: example_env_def example_draft_def)

lemma example_hash: "py_hash example_env (persona_id alice) mod 5 = 0"
  by (simp add: example_env_def alice_def)

lemma example_loop:
  "simulate_personas example_sim example_env d tot 0 [alice, bob] [] zero_counts []
     example_script
   = (([\<lparr> persona = alice, action = ''clicked'', sentiment = ''neutral'',
          comment = JStr ''Nice'', detailedReasoning = JStr ''Nice'' \<rparr>,
        \<lparr> persona = bob, action = ''ignored'', sentiment = ''neutral'',
          comment = JStr ''Failed to parse decision'',
          detailedReasoning = JStr ''Error parsing LLM response'' \<rparr>],
       \<lparr> open_count = 0, click_count = 1, reply_count = 0, spam_count = 0,
         ignore_count = 1, read_count = 1, forward_count = 1 \<rparr>,
       [Progress 1 tot, Progress 2 tot], None),
      [Inl (OtherError ''timeout'')])"
  by (simp add: example_script_def example_opened_clicked example_not_json update_counts_def
      example_hash zero_counts_def)

lemma example_loop_one:
  "simulate_personas example_sim example_env d tot 0 [alice] [] zero_counts []
     [Inr ''```json{\"action\": \"opened\", \"reason\": \"Relevant\"}```'',
      Inr ''{\"final_action\": \"CLICKED\", \"internal_monologue\": \"Nice\"}'']
   = (([\<lparr> persona = alice, action = ''clicked'', sentiment = ''neutral'',
          comment = JStr ''Nice'', detailedReasoning = JStr ''Nice'' \<rparr>],
       \<lparr> open_count = 0, click_count = 1, reply_count = 0, spam_count = 0,
         ignore_count = 0, read_count = 1, forward_count = 1 \<rparr>,
       [Progress 1 tot], None),
      [])"
  by (simp add: example_opened_clicked update_counts_def example_hash zero_counts_def)

lemma example_insights_raise:
  "generate_insights example_sim example_env d m rs (Inl e # rest)
     = (fallback_heuristics m [], rest)"
  by (simp add: generate_insights_def example_sim_def scripted_def)

lemma example_run:
  "run_simulation_stream example_sim example_env (example_draft 2) example_script
     = (([Progress 1 2, Progress 2 2, Result example_result], None), [])"
  by (simp add: run_simulation_stream_def Let_def example_personas example_loop
      example_insights_raise compute_metrics_def example_rates example_clock
      fallback_heuristics_def example_result_def del: simulate_personas.simps)

section \<open>Claims about the orchestrator\<close>

text \<open>
  The events of a run over a population of n personas. When every Decision Engine call
  returns, the run yields the progress events with \<open>current\<close> = 1, 2, ..., n in this
  order, each with \<open>total\<close> = n, and then one result event, which is the last event; the
  result holds n responses. When a Decision Engine call raises, the generator has yielded
  the progress events 1, ..., k for some k below n and no result event. For n = 0 no
  Decision Engine call is made: the run yields the result event only, with all seven
  rates 0 and no response.
\<close>

lemma stream_events:
  assumes run: "run_simulation_stream sim env draft s = ((evs, err), s')"
    and n: "n = length (generate_personas env (sample_size draft) (audience draft))"
  shows "(err = None \<longrightarrow>
            (\<exists>res. evs = map (\<lambda>k. Progress (int k) (int n)) [1..<Suc n] @ [Result res]
                 \<and> length (responses res) = n))
       \<and> (\<forall>e. err = Some e \<longrightarrow>
            (\<exists>k<n. evs = map (\<lambda>k. Progress (int k) (int n)) [1..<Suc k]))
       \<and> (n = 0 \<longrightarrow> err = None
            \<and> (\<exists>res. evs = [Result res]
                 \<and> result_metrics res = \<lparr> openRate = 0, clickRate = 0, replyRate = 0,
                      spamRate = 0, ignoreRate = 0, forwardRate = 0, readRate = 0 \<rparr>
                 \<and> responses res = []))"
proof -
  let ?ps = "generate_personas env (sample_size draft) (audience draft)"
  obtain rs c evs0 err0 s1 where
    L: "simulate_personas sim env draft (int (length ?ps)) 0 ?ps [] zero_counts [] s
          = ((rs, c, evs0, err0), s1)"
    by (metis prod.exhaust)
  from loop_shape[OF L] obtain k where k: "k \<le> n" "err0 = None \<longrightarrow> k = n"
    "err0 \<noteq> None \<longrightarrow> k < n" "length rs = k"
    "evs0 = map (\<lambda>j. Progress (int j) (int n)) [1..<Suc k]"
    by (auto simp: n)
  have completed: "err0 = None \<Longrightarrow> \<exists>res. evs = evs0 @ [Result res] \<and> err = None
      \<and> responses res = rs \<and> result_metrics res = compute_metrics c (int n)"
  proof -
    assume "err0 = None"
    with L run_completed[of sim env draft s rs c evs0 s1] run show ?thesis
      by (auto simp: n)
  qed
  have aborted: "err0 = Some e \<Longrightarrow> evs = evs0 \<and> err = Some e" for e
  proof -
    assume "err0 = Some e"
    with L run_aborted[of sim env draft s rs c evs0 e s1] run show ?thesis by simp
  qed
  have 1: "err = None \<longrightarrow>
            (\<exists>res. evs = map (\<lambda>k. Progress (int k) (int n)) [1..<Suc n] @ [Result res]
                 \<and> length (responses res) = n)"
  proof
    assume e: "err = None"
    have "err0 = None" using aborted e by (cases err0) auto
    with completed k show "\<exists>res. evs = map (\<lambda>k. Progress (int k) (int n)) [1..<Suc n] @ [Result res]
                 \<and> length (responses res) = n" by auto
  qed
  have 2: "\<forall>e. err = Some e \<longrightarrow>
            (\<exists>k<n. evs = map (\<lambda>k. Progress (int k) (int n)) [1..<Suc k])"
  proof (intro allI impI)
    fix e assume e: "err = Some e"
    have "err0 \<noteq> None" using completed e by auto
    then obtain e0 where e0: "err0 = Some e0" by auto
    with aborted[OF e0] k
    show "\<exists>k<n. evs = map (\<lambda>k. Progress (int k) (int n)) [1..<Suc k]" by auto
  qed
  have 3: "n = 0 \<longrightarrow> err = None
            \<and> (\<exists>res. evs = [Result res]
                 \<and> result_metrics res = \<lparr> openRate = 0, clickRate = 0, replyRate = 0,
                      spamRate = 0, ignoreRate = 0, forwardRate = 0, readRate = 0 \<rparr>
                 \<and> responses res = [])"
  proof
    assume z: "n = 0"
    then have ps: "?ps = []" using n by simp
    from L have "rs = []" "c = zero_counts" "evs0 = []" "err0 = None" by (simp_all add: ps)
    with completed z show "err = None
            \<and> (\<exists>res. evs = [Result res]
                 \<and> result_metrics res = \<lparr> openRate = 0, clickRate = 0, replyRate = 0,
                      spamRate = 0, ignoreRate = 0, forwardRate = 0, readRate = 0 \<rparr>
                 \<and> responses res = [])"
      by (auto simp: compute_metrics_def rate_zero_total)
  qed
  from 1 2 3 show ?thesis by (intro conjI)
qed

lemma stream_events_examples:
  "run_simulation_stream example_sim example_env (example_draft 2) example_script
     = (([Progress 1 2, Progress 2 2, Result example_result], None), [])
   \<and> (\<exists>res. [Progress 1 2, Progress 2 2, Result example_result]
               = map (\<lambda>k. Progress (int k) 2) [1..<3] @ [Result res]
             \<and> length (responses res) = 2)
   \<and> (\<exists>res. fst (fst (run_simulation_stream example_sim example_env (example_draft 0) []))
               = [Result res]
             \<and> result_metrics res = \<lparr> openRate = 0, clickRate = 0, replyRate = 0,
                  spamRate = 0, ignoreRate = 0, forwardRate = 0, readRate = 0 \<rparr>
             \<and> responses res = [])"
proof -
  have n2: "(2::nat) = length (generate_personas example_env (sample_size (example_draft 2))
                                 (audience (example_draft 2)))"
    by (simp add: example_personas)
  from stream_events[OF example_run n2]
  have a: "\<exists>res. [Progress 1 2, Progress 2 2, Result example_result]
               = map (\<lambda>k. Progress (int k) 2) [1..<3] @ [Result res]
             \<and> length (responses res) = 2"
    by (simp add: numeral_3_eq_3)
  have n0: "(0::nat) = length (generate_personas example_env (sample_size (example_draft 0))
                                 (audience (example_draft 0)))"
    by (simp add: example_env_def example_draft_def)
  have run0: "run_simulation_stream example_sim example_env (example_draft 0) []
      = ((fst (fst (run_simulation_stream example_sim example_env (example_draft 0) [])),
          snd (fst (run_simulation_stream example_sim example_env (example_draft 0) []))),
         snd (run_simulation_stream example_sim example_env (example_draft 0) []))"
    by simp
  from stream_events[OF run0 n0]
  have b: "\<exists>res. fst (fst (run_simulation_stream example_sim example_env (example_draft 0) []))
               = [Result res]
             \<and> result_metrics res = \<lparr> openRate = 0, clickRate = 0, replyRate = 0,
                  spamRate = 0, ignoreRate = 0, forwardRate = 0, readRate = 0 \<rparr>
             \<and> responses res = []"
    by simp
  from example_run a b show ?thesis by (intro conjI)
qed

text \<open>
  Claim C8 as stated fails: the orchestrator has seven counters, and whichever six of them
  are added, the sum is not the total. For one persona whose action is clicked and whose
  identifier hashes to a multiple of 5, the click, read and forward counts are all 1,
  the other four are 0 and the total is 1: the seven add up to 3, so any six of them
  add up to 2 or 3.
\<close>

theorem six_counts_counterexample:
  "generate_personas example_env (sample_size (example_draft 1)) (audience (example_draft 1))
     = [alice]
   \<and> simulate_personas example_sim example_env (example_draft 1) (int (length [alice])) 0
       [alice] [] zero_counts []
       [Inr ''```json{\"action\": \"opened\", \"reason\": \"Relevant\"}```'',
        Inr ''{\"final_action\": \"CLICKED\", \"internal_monologue\": \"Nice\"}'']
     = (([\<lparr> persona = alice, action = ''clicked'', sentiment = ''neutral'',
            comment = JStr ''Nice'', detailedReasoning = JStr ''Nice'' \<rparr>],
         counts_after_click, [Progress 1 (int (length [alice]))], None),
        [])
   \<and> open_count counts_after_click + click_count counts_after_click
       + reply_count counts_after_click + spam_count counts_after_click
       + ignore_count counts_after_click + read_count counts_after_click
       \<noteq> int (length [alice])
   \<and> open_count counts_after_click + click_count counts_after_click
       + reply_count counts_after_click + spam_count counts_after_click
       + ignore_count counts_after_click + forward_count counts_after_click
       \<noteq> int (length [alice])
   \<and> open_count counts_after_click + click_count counts_after_click
       + reply_count counts_after_click + spam_count counts_after_click
       + ignore_count counts_after_click + read_count counts_after_click
       + forward_count counts_after_click = 3"
  using example_loop_one[of "example_draft 1" "int (length [alice])"] example_personas(2)
  by (simp add: counts_after_click_def)

text \<open>
  Claim C8, as the code has it. The orchestrator keeps five action counts (open, click,
  reply, spam, ignore) and two derived counters (read, forward). When the loop has run
  over all personas, the five action counts add up to the total, which is the number of
  responses and the number of personas supplied.
\<close>

theorem five_counts_sum_to_total:
  assumes "simulate_personas sim env draft (int (length ps)) 0 ps [] zero_counts [] s
             = ((rs, c, evs, None), s')"
  shows "open_count c + click_count c + reply_count c + spam_count c + ignore_count c
           = int (length ps)
         \<and> length rs = length ps"
proof -
  from loop_shape[OF assms] have len: "length rs = length ps" by auto
  from loop_five[OF assms] len show ?thesis by (simp add: zero_counts_def)
qed

theorem five_counts_sum_to_total_witness:
  "simulate_personas example_sim example_env (example_draft 2) (int (length [alice, bob])) 0
       [alice, bob] [] zero_counts [] example_script
     = (([\<lparr> persona = alice, action = ''clicked'', sentiment = ''neutral'',
            comment = JStr ''Nice'', detailedReasoning = JStr ''Nice'' \<rparr>,
          \<lparr> persona = bob, action = ''ignored'', sentiment = ''neutral'',
            comment = JStr ''Failed to parse decision'',
            detailedReasoning = JStr ''Error parsing LLM response'' \<rparr>],
         counts_after_script,
         [Progress 1 (int (length [alice, bob])), Progress 2 (int (length [alice, bob]))],
         None),
        [Inl (OtherError ''timeout'')])
   \<and> open_count counts_after_script + click_count counts_after_script
       + reply_count counts_after_script + spam_count counts_after_script
       + ignore_count counts_after_script
       = int (length [alice, bob])"
proof -
  have L: "simulate_personas example_sim example_env (example_draft 2)
       (int (length [alice, bob])) 0 [alice, bob] [] zero_counts [] example_script
     = (([\<lparr> persona = alice, action = ''clicked'', sentiment = ''neutral'',
            comment = JStr ''Nice'', detailedReasoning = JStr ''Nice'' \<rparr>,
          \<lparr> persona = bob, action = ''ignored'', sentiment = ''neutral'',
            comment = JStr ''Failed to parse decision'',
            detailedReasoning = JStr ''Error parsing LLM response'' \<rparr>],
         counts_after_script,
         [Progress 1 (int (length [alice, bob])), Progress 2 (int (length [alice, bob]))],
         None),
        [Inl (OtherError ''timeout'')])"
    unfolding counts_after_script_def
    by (rule example_loop[of "example_draft 2" "int (length [alice, bob])"])
  from five_counts_sum_to_total[OF L] L show ?thesis by (intro conjI) blast+
qed

text \<open>
  Claim C10. One more response changes the forward counter only if its action is clicked
  and the hash of the persona identifier is a multiple of 5. So at the end of the loop
  the forward count is at most the click count, and in every result event the forward
  rate is at most the click rate.
\<close>

theorem forward_rate_le_click_rate:
  "(forward_count (update_counts env p r c0) \<noteq> forward_count c0
      \<longrightarrow> action r = ''clicked'' \<and> py_hash env (persona_id p) mod 5 = 0)
   \<and> (simulate_personas sim env draft tot 0 ps [] zero_counts [] s = ((rs, c, evs, err), s')
      \<longrightarrow> forward_count c \<le> click_count c
          \<and> forwardRate (compute_metrics c tot) \<le> clickRate (compute_metrics c tot))
   \<and> (run_simulation_stream sim env draft s = ((evs', err'), s'')
      \<longrightarrow> (\<forall>res. Result res \<in> set evs'
            \<longrightarrow> forwardRate (result_metrics res) \<le> clickRate (result_metrics res)))"
proof -
  have loop: "forward_count c \<le> click_count c
          \<and> forwardRate (compute_metrics c tot) \<le> clickRate (compute_metrics c tot)"
    if L: "simulate_personas sim env draft tot 0 ps [] zero_counts [] s = ((rs, c, evs, err), s')"
    for tot ps rs c evs err s'
  proof -
    from loop_forward[OF L] have f: "0 \<le> forward_count c" "forward_count c \<le> click_count c"
      by (simp_all add: zero_counts_def)
    from rate_mono[OF f] show ?thesis using f by (simp add: compute_metrics_def)
  qed
  have 1: "forward_count (update_counts env p r c0) \<noteq> forward_count c0
      \<longrightarrow> action r = ''clicked'' \<and> py_hash env (persona_id p) mod 5 = 0"
    by (simp add: update_counts_def)
  have 3: "run_simulation_stream sim env draft s = ((evs', err'), s'')
      \<longrightarrow> (\<forall>res. Result res \<in> set evs'
            \<longrightarrow> forwardRate (result_metrics res) \<le> clickRate (result_metrics res))"
  proof (intro impI allI)
    fix res
    assume run: "run_simulation_stream sim env draft s = ((evs', err'), s'')"
      and mem: "Result res \<in> set evs'"
    let ?ps = "generate_personas env (sample_size draft) (audience draft)"
    obtain rs c evs0 err0 s1 where
      L: "simulate_personas sim env draft (int (length ?ps)) 0 ?ps [] zero_counts [] s
            = ((rs, c, evs0, err0), s1)"
      by (metis prod.exhaust)
    from loop_shape[OF L] obtain k where
      ev: "evs0 = map (\<lambda>j. Progress (0 + int j) (int (length ?ps))) [1..<Suc k]" by auto
    have no: "Result res \<notin> set evs0" unfolding ev by (rule progress_only)
    show "forwardRate (result_metrics res) \<le> clickRate (result_metrics res)"
    proof (cases err0)
      case (Some e)
      with L run_aborted[of sim env draft s rs c evs0 e s1] run have "evs' = evs0" by simp
      with mem no show ?thesis by simp
    next
      case None
      with L run_completed[of sim env draft s rs c evs0 s1] run obtain res0 where
        "evs' = evs0 @ [Result res0]"
        "result_metrics res0 = compute_metrics c (int (length ?ps))" by auto
      with mem no have "result_metrics res = compute_metrics c (int (length ?ps))" by auto
      with loop[OF L] show ?thesis by simp
    qed
  qed
  from 1 loop 3 show ?thesis by blast
qed

theorem forward_rate_le_click_rate_witness:
  "forward_count (update_counts example_env alice
       \<lparr> persona = alice, action = ''clicked'', sentiment = ''neutral'',
         comment = JStr ''Nice'', detailedReasoning = JStr ''Nice'' \<rparr> zero_counts)
     \<noteq> forward_count zero_counts
   \<and> py_hash example_env (persona_id alice) mod 5 = 0
   \<and> run_simulation_stream example_sim example_env (example_draft 2) example_script
       = (([Progress 1 2, Progress 2 2, Result example_result], None), [])
   \<and> forwardRate (result_metrics example_result) \<le> clickRate (result_metrics example_result)"
proof -
  have ch: "forward_count (update_counts example_env alice
       \<lparr> persona = alice, action = ''clicked'', sentiment = ''neutral'',
         comment = JStr ''Nice'', detailedReasoning = JStr ''Nice'' \<rparr> zero_counts)
     \<noteq> forward_count zero_counts"
    by (simp add: update_counts_def example_hash zero_counts_def)
  note T = forward_rate_le_click_rate[where env = example_env and p = alice
      and r = "\<lparr> persona = alice, action = ''clicked'', sentiment = ''neutral'',
                  comment = JStr ''Nice'', detailedReasoning = JStr ''Nice'' \<rparr>"
      and ?c0.0 = zero_counts and sim = example_sim and draft = "example_draft 2"
      and s = example_script
      and evs' = "[Progress 1 2, Progress 2 2, Result example_result]"
      and err' = None and s'' = "[]"]
  from T ch have h: "py_hash example_env (persona_id alice) mod 5 = 0" by blast
  have mem: "Result example_result \<in> set [Progress 1 2, Progress 2 2, Result example_result]"
    by simp
  from T example_run mem
  have le: "forwardRate (result_metrics example_result)
              \<le> clickRate (result_metrics example_result)"
    by blast
  from ch h example_run le show ?thesis by (intro conjI)
qed

section \<open>What holds of the rates and of the fallback\<close>

text \<open>A rate is an integer between 0 and 100 whenever the count is between 0 and the
  total, and 0 when the total is 0.\<close>

lemma fl_one: "fl 1 = 1"
  by code_simp

lemma fl_hundred: "fl 100 = 100"
  by code_simp

lemma rate_range:
  assumes "0 \<le> k" and "k \<le> t"
  shows "0 \<le> rate k t \<and> rate k t \<le> 100"
proof (cases "0 < t")
  case False
  then show ?thesis by (simp add: rate_def)
next
  case True
  then have t: "(0::rat) < of_int t" by simp
  have q0: "(0::rat) \<le> of_int k / of_int t" using assms(1) t by simp
  have q1: "(of_int k :: rat) / of_int t \<le> 1" using assms(2) t by simp
  have a0: "0 \<le> fl (of_int k / of_int t)" using q0 by (rule fl_nonneg)
  have a1: "fl (of_int k / of_int t) \<le> 1" using fl_mono[OF q0 q1] by (simp add: fl_one)
  have b0: "0 \<le> fl (of_int k / of_int t) * 100" using a0 by simp
  have b1: "fl (of_int k / of_int t) * 100 \<le> 100" using a1 by simp
  have c0: "0 \<le> fl (fl (of_int k / of_int t) * 100)" using b0 by (rule fl_nonneg)
  have c1: "fl (fl (of_int k / of_int t) * 100) \<le> 100"
    using fl_mono[OF b0 b1] by (simp add: fl_hundred)
  from c0 c1 True show ?thesis by (simp add: rate_def py_int_def floor_le_iff)
qed

text \<open>The fallback heuristics on the empty list, and the failures of the oracle path that
  reach them with the empty list.\<close>

lemma fallback_heuristics_empty:
  "fallback_heuristics m [] =
     (if openRate m < 20 then
        [\<lparr> insight_type = ''negative'', title = JStr low_open_title,
           description = JStr low_open_description \<rparr>]
      else if openRate m > 40 then
        [\<lparr> insight_type = ''positive'', title = JStr high_open_title,
           description = JStr high_open_description \<rparr>]
      else [])
     @ (if spamRate m > 10 then
          [\<lparr> insight_type = ''warning'', title = JStr spam_risk_title,
             description = JStr spam_risk_description \<rparr>]
        else [])"
  by (simp add: fallback_heuristics_def)

lemma insights_when_oracle_raises:
  "llm sim s (Analyze_results draft m (take 5 rs)) = (Inl e, s')
   \<Longrightarrow> generate_insights sim env draft m rs s = (fallback_heuristics m [], s')"
  by (simp add: generate_insights_def)

lemma insights_when_no_json_object:
  "llm sim s (Analyze_results draft m (take 5 rs)) = (Inr txt, s') \<Longrightarrow> json_match txt = None
   \<Longrightarrow> generate_insights sim env draft m rs s = (fallback_heuristics m [], s')"
  by (simp add: generate_insights_def)

lemma insights_when_parse_fails:
  "llm sim s (Analyze_results draft m (take 5 rs)) = (Inr txt, s')
   \<Longrightarrow> json_match txt = Some cleaned \<Longrightarrow> loads_or_literal env cleaned = Inl e
   \<Longrightarrow> generate_insights sim env draft m rs s = (fallback_heuristics m [], s')"
  by (simp add: generate_insights_def)

lemma insights_when_first_item_fails:
  "llm sim s (Analyze_results draft m (take 5 rs)) = (Inr txt, s')
   \<Longrightarrow> json_match txt = Some cleaned \<Longrightarrow> loads_or_literal env cleaned = Inr (JObj kvs)
   \<Longrightarrow> map_of kvs ''insights'' = Some v \<Longrightarrow> py_iter v = Inr items
   \<Longrightarrow> collect_insights (tables env) items [] = ([], Some e)
   \<Longrightarrow> generate_insights sim env draft m rs s = (fallback_heuristics m [], s')"
  by (simp add: generate_insights_def)

section \<open>Where the code departs from the specification\<close>

text \<open>
  Claim C2 at a failing input: 29 of 100 responses end with action opened. The quotient
  29/100 is rounded to a float, the product with 100 is rounded to the float just below
  29, and \<open>int\<close> truncates it to 28, where the exact \<open>floor(29/100*100)\<close> is 29.
\<close>

theorem open_rate_29_of_100:
  "openRate (compute_metrics \<lparr> open_count = 29, click_count = 0, reply_count = 0,
                                spam_count = 0, ignore_count = 71, read_count = 29,
                                forward_count = 0 \<rparr> 100) = 28
   \<and> fl (29 / 100) = 5224175567749775 / 18014398509481984
   \<and> fl (fl (29 / 100) * 100) = 8162774324609023 / 281474976710656
   \<and> py_int (8162774324609023 / 281474976710656) = 28
   \<and> \<lfloor>(29::rat) / 100 * 100\<rfloor> = 29"
proof -
  have r: "rate 29 100 = 28" by code_simp
  have a: "openRate (compute_metrics \<lparr> open_count = 29, click_count = 0, reply_count = 0,
                                spam_count = 0, ignore_count = 71, read_count = 29,
                                forward_count = 0 \<rparr> 100) = 28"
    by (simp add: compute_metrics_def r)
  have b: "fl (29 / 100) = 5224175567749775 / 18014398509481984" by code_simp
  have c: "fl (fl (29 / 100) * 100) = 8162774324609023 / 281474976710656" by code_simp
  have d: "py_int (8162774324609023 / 281474976710656) = 28" by code_simp
  have e: "\<lfloor>(29::rat) / 100 * 100\<rfloor> = 29" by simp
  from a b c d e show ?thesis by (intro conjI)
qed

text \<open>
  Claim C3 at a failing input: a population of two personas. The first opens and clicks.
  For the second the oracle answers the scan prompt with \<open>[]\<close>, which \<open>json.loads\<close>
  accepts, so the \<open>except\<close> branch of lines 96 to 101 is not taken; the value is a list,
  and \<open>res_a.get\<close> at line 103, outside the \<open>try\<close> block, raises. The exception leaves
  the generator after the first progress event: the second progress event and the result
  event, which the claim has every run end with, are never yielded.
\<close>

theorem stream_interrupted_by_array_reply:
  "example_loads ''[]'' = Inr (JArr [])
   \<and> generate_personas example_env (sample_size (example_draft 2)) (audience (example_draft 2))
       = [alice, bob]
   \<and> run_simulation_stream example_sim example_env (example_draft 2)
       [Inr ''```json{\"action\": \"opened\", \"reason\": \"Relevant\"}```'',
        Inr ''{\"final_action\": \"CLICKED\", \"internal_monologue\": \"Nice\"}'',
        Inr ''[]'']
     = (([Progress 1 2], Some AttributeError), [])
   \<and> (\<forall>res. Result res \<notin> set [Progress 1 2])"
proof -
  have l: "example_loads ''[]'' = Inr (JArr [])" by (simp add: example_loads_def)
  have r: "run_simulation_stream example_sim example_env (example_draft 2)
       [Inr ''```json{\"action\": \"opened\", \"reason\": \"Relevant\"}```'',
        Inr ''{\"final_action\": \"CLICKED\", \"internal_monologue\": \"Nice\"}'',
        Inr ''[]'']
     = (([Progress 1 2], Some AttributeError), [])"
    by (simp add: run_simulation_stream_def Let_def example_personas example_opened_clicked
        example_scan_array)
  from l example_personas(1) r show ?thesis by simp
qed

text \<open>
  Claim C5 at a failing input: the scan reply has the action opened, and the act reply is
  \<open>{"final_action": null, "internal_monologue": "Hm"}\<close>. The reply parses, so the
  \<open>except\<close> branch of lines 121 to 124 is not taken; \<open>final_action\<close> is neither clicked
  nor replied, and the claim has the response keep the action opened. But
  \<open>res_c.get("final_action", "opened")\<close> is \<open>None\<close>, and \<open>.lower()\<close> at line 126,
  outside the \<open>try\<close> block, raises: the Decision Engine returns no response. With
  \<open>"forwarded"\<close> in the place of \<open>null\<close> the response is returned, with the action
  opened.
\<close>

theorem null_final_action_raises:
  "example_loads ''{\"final_action\": null, \"internal_monologue\": \"Hm\"}''
     = Inr (JObj [(''final_action'', JNull), (''internal_monologue'', JStr ''Hm'')])
   \<and> simulate_single_persona example_sim example_env (example_draft 2) alice
       [Inr ''{\"action\": \"opened\", \"reason\": \"Relevant\"}'',
        Inr ''{\"final_action\": null, \"internal_monologue\": \"Hm\"}'']
     = (Inl AttributeError, [])
   \<and> simulate_single_persona example_sim example_env (example_draft 2) alice
       [Inr ''{\"action\": \"opened\", \"reason\": \"Relevant\"}'',
        Inr ''{\"final_action\": \"forwarded\", \"internal_monologue\": \"Hm\"}'']
     = (Inr \<lparr> persona = alice, action = ''opened'', sentiment = ''neutral'',
               comment = JStr ''Hm'', detailedReasoning = JStr ''Hm'' \<rparr>, [])"
proof -
  have l: "example_loads ''{\"final_action\": null, \"internal_monologue\": \"Hm\"}''
     = Inr (JObj [(''final_action'', JNull), (''internal_monologue'', JStr ''Hm'')])"
    by (simp add: example_loads_def)
  from l example_opened_null[of "example_draft 2" alice "[]"]
    example_opened_forwarded[of "example_draft 2" alice "[]"]
  show ?thesis by (intro conjI)
qed

text \<open>
  Claim C6 at a failing input: the oracle's reply holds a list of two insights, the first
  well formed, the second the number 5. The first is appended to the list, the second
  raises, and the heuristics append to the same list: the result mixes an oracle insight
  with the two heuristic ones.
\<close>

theorem hybrid_insights_after_item_failure:
  "json_match broken_insights_reply
     = Some ''{\"insights\": [{\"type\": \"positive\", \"title\": \"T\", \"description\": \"D\"}, 5]}''
   \<and> generate_insights example_sim example_env (example_draft 2) low_open_metrics []
       [Inr broken_insights_reply]
     = ([\<lparr> insight_type = ''positive'', title = JStr ''T'', description = JStr ''D'' \<rparr>,
         \<lparr> insight_type = ''negative'', title = JStr low_open_title,
           description = JStr low_open_description \<rparr>,
         \<lparr> insight_type = ''warning'', title = JStr spam_risk_title,
           description = JStr spam_risk_description \<rparr>], [])
   \<and> fallback_heuristics low_open_metrics []
     = [\<lparr> insight_type = ''negative'', title = JStr low_open_title,
          description = JStr low_open_description \<rparr>,
        \<lparr> insight_type = ''warning'', title = JStr spam_risk_title,
          description = JStr spam_risk_description \<rparr>]"
proof -
  have m: "json_match broken_insights_reply
     = Some ''{\"insights\": [{\"type\": \"positive\", \"title\": \"T\", \"description\": \"D\"}, 5]}''"
    by (simp add: json_match_def broken_insights_reply_def)
  have l: "loads_or_literal example_env
      ''{\"insights\": [{\"type\": \"positive\", \"title\": \"T\", \"description\": \"D\"}, 5]}''
     = Inr (JObj [(''insights'',
                   JArr [JObj [(''type'', JStr ''positive''), (''title'', JStr ''T''),
                               (''description'', JStr ''D'')],
                         JNum 5])])"
    by (simp add: loads_or_literal_def example_env_def example_loads_def)
  have c: "collect_insights (tables example_env)
      [JObj [(''type'', JStr ''positive''), (''title'', JStr ''T''), (''description'', JStr ''D'')],
       JNum 5] []
     = ([\<lparr> insight_type = ''positive'', title = JStr ''T'', description = JStr ''D'' \<rparr>],
        Some AttributeError)"
    by (simp add: py_get_def lower_of_def py_lower_def is_ascii_def lower_char_def normalize_type_def)
  have h: "fallback_heuristics low_open_metrics ins
     = ins @ [\<lparr> insight_type = ''negative'', title = JStr low_open_title,
                description = JStr low_open_description \<rparr>,
              \<lparr> insight_type = ''warning'', title = JStr spam_risk_title,
                description = JStr spam_risk_description \<rparr>]" for ins
    by (simp add: fallback_heuristics_def low_open_metrics_def)
  have g: "generate_insights example_sim example_env (example_draft 2) low_open_metrics []
       [Inr broken_insights_reply]
     = ([\<lparr> insight_type = ''positive'', title = JStr ''T'', description = JStr ''D'' \<rparr>,
         \<lparr> insight_type = ''negative'', title = JStr low_open_title,
           description = JStr low_open_description \<rparr>,
         \<lparr> insight_type = ''warning'', title = JStr spam_risk_title,
           description = JStr spam_risk_description \<rparr>], [])"
    by (simp add: generate_insights_def example_sim_def scripted_def m l py_iter_def c h
        del: collect_insights.simps)
  from m g h[of "[]"] show ?thesis by simp
qed

end
